theory Spec2Isabelle
  imports Complex_Main "HOL-Library.AList" "HOL-Library.Sublist"
begin

section \<open>Python values\<close>

text \<open>
  The connector handles decoded JSON throughout: what \<^verbatim>\<open>response.json()\<close> returns, the
  raw payloads of the web socket, the content of an order book message. A decoded JSON value
  is a Python \<^verbatim>\<open>None\<close>, \<^verbatim>\<open>bool\<close>, \<^verbatim>\<open>int\<close>, \<^verbatim>\<open>float\<close>,
  \<^verbatim>\<open>str\<close>, \<^verbatim>\<open>list\<close> or \<^verbatim>\<open>dict\<close>. A dict is an association list in
  insertion order; Python keeps its keys distinct, which the theorems that need it assume
  as \<open>distinct (map fst d)\<close>.
\<close>

datatype json =
    JNull
  | JBool bool
  | JInt int
  | JFloat rat
  | JStr string
  | JArr "json list"
  | JObj "(string \<times> json) list"

type_synonym dict = "(string \<times> json) list"

text \<open>\<^verbatim>\<open>d.get(k)\<close>: the value stored under \<open>k\<close>, and \<^verbatim>\<open>None\<close> when there is none.\<close>

definition py_get :: "dict \<Rightarrow> string \<Rightarrow> json" where
  "py_get d k = (case map_of d k of Some v \<Rightarrow> v | None \<Rightarrow> JNull)"

text \<open>
  \<^verbatim>\<open>d.update(e)\<close>: the items of \<open>e\<close> are stored one after the other; a key that \<open>d\<close>
  has keeps its place and gets the new value, a new key goes to the end.
\<close>

definition dict_update :: "dict \<Rightarrow> dict \<Rightarrow> dict" where
  "dict_update d e = fold (\<lambda>(k, v). AList.update k v) e d"

text \<open>The truth value of an optional dict: \<^verbatim>\<open>None\<close> and \<^verbatim>\<open>{}\<close> are false.\<close>

fun truthy :: "dict option \<Rightarrow> bool" where
  "truthy None = False"
| "truthy (Some d) = (d \<noteq> [])"

section \<open>Order book messages (xeggex\_order\_book.py)\<close>

datatype OrderBookMessageType = SNAPSHOT | DIFF | TRADE

text \<open>
  Modelled from the spec: the message class \<^verbatim>\<open>XeggexOrderBookMessage\<close>
  (xeggex\_order\_book\_message.py) is not among the source files. The spec's Order Book
  Update is a record of a kind, a timestamp and a payload, immutable once constructed; the
  constructor stores its three arguments.
\<close>

record 't XeggexOrderBookMessage =
  message_type :: OrderBookMessageType
  content :: dict
  timestamp :: 't

definition snapshot_message_from_exchange ::
  "dict \<Rightarrow> 't \<Rightarrow> dict option \<Rightarrow> 't XeggexOrderBookMessage" where
  "snapshot_message_from_exchange msg ts metadata =
     (let msg = (if truthy metadata then dict_update msg (the metadata) else msg)
      in \<lparr>message_type = SNAPSHOT, content = msg, timestamp = ts\<rparr>)"

definition diff_message_from_exchange ::
  "dict \<Rightarrow> 't \<Rightarrow> dict option \<Rightarrow> 't XeggexOrderBookMessage" where
  "diff_message_from_exchange msg ts metadata =
     (let msg = (if truthy metadata then dict_update msg (the metadata) else msg)
      in \<lparr>message_type = DIFF, content = msg, timestamp = ts\<rparr>)"

definition trade_message_from_exchange ::
  "dict \<Rightarrow> 't \<Rightarrow> dict option \<Rightarrow> 't XeggexOrderBookMessage" where
  "trade_message_from_exchange msg ts metadata =
     (let msg = (if truthy metadata then dict_update msg (the metadata) else msg);
          msg = dict_update msg
                  [(''exchange_order_id'', py_get msg ''id''),
                   (''trade_type'', py_get msg ''side''),
                   (''price'', py_get msg ''price''),
                   (''amount'', py_get msg ''quantity'')]
      in \<lparr>message_type = TRADE, content = msg, timestamp = ts\<rparr>)"

text \<open>The keys an optional metadata dict defines.\<close>

fun metadata_keys :: "dict option \<Rightarrow> string set" where
  "metadata_keys None = {}"
| "metadata_keys (Some d) = fst ` set d"

section \<open>The REST client (xeggex\_utils.py)\<close>

text \<open>
  The exceptions the modelled code raises.
\<close>

datatype error =
    XeggexAPIError dict
  | OverflowError
  | ValueError
  | KeyError
  | TypeError
  | AttributeError
  | IOError

text \<open>
  The constants of xeggex\_constants.py, which is not among the source files: they are a
  parameter of every function that reads them.
\<close>

record Constants =
  REST_URL :: string
  API_MAX_RETRIES :: int
  ENDPOINT_SYMBOL :: string
  ENDPOINT_ORDER_BOOK :: string

text \<open>
  What the server does with one request. \<open>ConnectionError\<close> stands for every exception of
  \<^verbatim>\<open>async with request_coroutine as response\<close> itself: no connection, or the timeout
  \<^verbatim>\<open>Constants.API_CALL_TIMEOUT\<close> running out. Of a response the code reads the status,
  the reason and the body: \<^verbatim>\<open>response.json()\<close> returns the decoded body (\<open>Json\<close>) or
  raises, and then \<^verbatim>\<open>str(await response.read())\<close> is a text (\<open>NotJson (Some s)\<close>)
  or raises as well (\<open>NotJson None\<close>).
\<close>

datatype body_read = Json json | NotJson "string option"

record response =
  status :: int
  reason :: "string option"
  body :: body_read

datatype http_outcome = ConnectionError | Responded response

record request =
  http_method :: string
  url :: string
  headers :: "(string \<times> string) list"
  params :: "dict option"

text \<open>
  The argument of an \<^verbatim>\<open>asyncio.sleep\<close>: a literal of the source (5.0 seconds), or the
  double that \<^verbatim>\<open>retry_sleep_time\<close> returned for a \<^verbatim>\<open>try_count\<close> and a random
  draw. The double is named, not computed: the model has no IEEE arithmetic.
\<close>

datatype seconds = Seconds rat | Retry_seconds int int

text \<open>
  The world outside one call: the class attribute \<^verbatim>\<open>_trading_pair_symbol_map\<close>, the
  number of HTTP requests sent so far, and the sleeps done so far. The keys of the map are
  what \<^verbatim>\<open>symbol_data["symbol"]\<close> was in the listing: strings for the exchange, but
  any hashable value is stored.
\<close>

record world =
  symbol_map :: "(json \<times> string) list"
  requests :: nat
  sleeps :: "seconds list"

text \<open>
  The environment: the outcome of the \<open>n\<close>-th request sent, the number
  \<^verbatim>\<open>random.randint(1, 10)\<close> returns at the retry that follows it, and the text
  Python's \<^verbatim>\<open>str\<close> gives for a float, a list or a dict, which the model does not
  compute.
\<close>

record env =
  server :: "nat \<Rightarrow> request \<Rightarrow> http_outcome"
  randint :: "nat \<Rightarrow> int"
  str_of :: "json \<Rightarrow> string"

text \<open>\<^verbatim>\<open>str.upper()\<close>, on ASCII letters.\<close>

definition upper :: "string \<Rightarrow> string" where
  "upper s = map (\<lambda>c. let n = (of_char c :: nat) in
                        if 97 \<le> n \<and> n \<le> 122 then char_of (n - 32) else c) s"

text \<open>
  Python converts an \<^verbatim>\<open>int\<close> to a \<^verbatim>\<open>float\<close> by rounding to 53 bits, and raises
  \<^verbatim>\<open>OverflowError\<close> (int too large to convert to float) when the rounded value
  reaches \<open>2 ^ 1024\<close>.
\<close>

definition int_too_large :: "int \<Rightarrow> bool" where
  "int_too_large n = (2 ^ 1024 - 2 ^ 970 \<le> \<bar>n\<bar>)"

text \<open>
  \<^verbatim>\<open>retry_sleep_time(try_count)\<close>, with the number \<open>r\<close> that
  \<^verbatim>\<open>random.randint(1, 10)\<close> returns as a second argument. For a
  \<^verbatim>\<open>try_count\<close> that is not negative, \<^verbatim>\<open>1 + try_count ** try_count\<close> is an
  \<^verbatim>\<open>int\<close>, which the multiplication by the float \<^verbatim>\<open>randSleep\<close> converts: that
  raises \<^verbatim>\<open>OverflowError\<close> or not, exactly as \<open>int_too_large\<close> says. For a negative
  \<^verbatim>\<open>try_count\<close> the power is a float already, of absolute value at most 1. The double
  that is returned is named by \<open>Retry_seconds\<close>.
\<close>

definition retry_sleep_time :: "int \<Rightarrow> int \<Rightarrow> error + seconds" where
  "retry_sleep_time try_count r =
     (if 0 \<le> try_count \<and> int_too_large (1 + try_count ^ nat try_count)
      then Inl OverflowError
      else Inr (Retry_seconds try_count r))"

text \<open>
  \<^verbatim>\<open>k in x\<close> for a string \<open>k\<close>: a key of a dict, an element of a list, a substring
  of a string; \<^verbatim>\<open>TypeError\<close> on \<^verbatim>\<open>None\<close>, a bool or a number.
\<close>

fun py_in :: "string \<Rightarrow> json \<Rightarrow> error + bool" where
  "py_in k (JObj d) = Inr (k \<in> set (map fst d))"
| "py_in k (JArr xs) = Inr (JStr k \<in> set xs)"
| "py_in k (JStr s) = Inr (sublist k s)"
| "py_in k _ = Inl TypeError"

text \<open>\<^verbatim>\<open>x[k]\<close> for a string \<open>k\<close>.\<close>

fun py_subscript :: "json \<Rightarrow> string \<Rightarrow> error + json" where
  "py_subscript (JObj d) k = (case map_of d k of None \<Rightarrow> Inl KeyError | Some v \<Rightarrow> Inr v)"
| "py_subscript _ k = Inl TypeError"

definition opt_str :: "string option \<Rightarrow> json" where
  "opt_str s = (case s of None \<Rightarrow> JNull | Some t \<Rightarrow> JStr t)"

definition opt_int :: "int option \<Rightarrow> json" where
  "opt_int s = (case s of None \<Rightarrow> JNull | Some n \<Rightarrow> JInt n)"

text \<open>
  The result is \<^verbatim>\<open>(http_status, parsed_response, request_errors)\<close>; Python's
  \<^verbatim>\<open>None\<close> is \<open>None\<close> for the status and \<open>JNull\<close> for the parsed response. The
  \<^verbatim>\<open>TypeError\<close> of \<^verbatim>\<open>"error" not in parsed_response\<close> is caught by the outer
  \<^verbatim>\<open>except\<close>, after the status and the parsed response were set.
\<close>

definition aiohttp_response_with_errors :: "http_outcome \<Rightarrow> int option \<times> json \<times> bool" where
  "aiohttp_response_with_errors request_coroutine =
     (case request_coroutine of
        ConnectionError \<Rightarrow> (None, JNull, True)
      | Responded response \<Rightarrow>
          (let http_status = Some (status response);
               (parsed_response, request_errors) =
                  (case body response of
                     Json j \<Rightarrow> (j, False)
                   | NotJson None \<Rightarrow> (JNull, True)
                   | NotJson (Some s) \<Rightarrow>
                       (JStr (if length s > 100 then take 100 s @ '' ... (truncated)'' else s),
                        True))
           in if parsed_response = JNull
              then (http_status, opt_str (reason response), True)
              else if status response \<notin> {200, 201}
              then (case py_in ''error'' parsed_response of
                      Inl e \<Rightarrow> (http_status, parsed_response, True)
                    | Inr True \<Rightarrow> (http_status, parsed_response, request_errors)
                    | Inr False \<Rightarrow> (http_status, parsed_response, True))
              else (http_status, parsed_response, request_errors)))"

text \<open>The request \<^verbatim>\<open>api_call_with_retries\<close> builds; it is the same at every attempt.\<close>

definition build_request :: "Constants \<Rightarrow> string \<Rightarrow> string \<Rightarrow> dict option \<Rightarrow> request" where
  "build_request C meth endpoint ps =
     \<lparr>http_method = upper meth, url = REST_URL C @ ''/'' @ endpoint,
      headers = [(''Content-Type'', ''application/json'')], params = ps\<rparr>"

function api_call_with_retries ::
  "env \<Rightarrow> Constants \<Rightarrow> world \<Rightarrow> string \<Rightarrow> string \<Rightarrow> dict option \<Rightarrow> int \<Rightarrow> world \<times> (error + json)"
where
  "api_call_with_retries E C w meth endpoint ps try_count =
     (let res = aiohttp_response_with_errors
                  (server E (requests w) (build_request C meth endpoint ps));
          http_status = fst res;
          parsed_response = fst (snd res);
          request_errors = snd (snd res);
          w1 = w\<lparr>requests := Suc (requests w)\<rparr>
      in if request_errors \<or> parsed_response = JNull then
           if try_count < API_MAX_RETRIES C then
             (case retry_sleep_time (try_count + 1) (randint E (requests w)) of
                Inl e \<Rightarrow> (w1, Inl e)
              | Inr time_sleep \<Rightarrow>
                  api_call_with_retries E C (w1\<lparr>sleeps := sleeps w1 @ [time_sleep]\<rparr>)
                    meth endpoint ps (try_count + 1))
           else (w1, Inl (XeggexAPIError
                            [(''error'', parsed_response), (''status'', opt_int http_status)]))
         else (w1, Inr parsed_response))"
  by pat_completeness auto
termination
  by (relation "measure (\<lambda>(E, C, w, meth, endpoint, ps, try_count).
                           nat (API_MAX_RETRIES C - try_count))") auto

declare api_call_with_retries.simps [simp del]

section \<open>The symbol registry (xeggex\_api\_order\_book\_data\_source.py)\<close>

text \<open>
  What \<^verbatim>\<open>for symbol_data in symbols\<close> iterates over: the elements of a list, the keys
  of a dict, the characters of a string; anything else is not iterable.
\<close>

fun py_iter :: "json \<Rightarrow> error + json list" where
  "py_iter (JArr xs) = Inr xs"
| "py_iter (JObj d) = Inr (map (\<lambda>(k, v). JStr k) d)"
| "py_iter (JStr s) = Inr (map (\<lambda>c. JStr [c]) s)"
| "py_iter _ = Inl TypeError"

text \<open>
  A dict whose keys are decoded JSON values. A list or a dict is not hashable; the other
  values are, and as keys they are compared with \<^verbatim>\<open>==\<close>: numbers and booleans by
  their value (\<^verbatim>\<open>True == 1 == 1.0\<close>), strings and \<^verbatim>\<open>None\<close> with themselves only.
\<close>

fun hashable :: "json \<Rightarrow> bool" where
  "hashable (JArr xs) = False"
| "hashable (JObj d) = False"
| "hashable x = True"

fun num_val :: "json \<Rightarrow> rat option" where
  "num_val (JBool b) = Some (if b then 1 else 0)"
| "num_val (JInt n) = Some (of_int n)"
| "num_val (JFloat q) = Some q"
| "num_val x = None"

definition py_eq :: "json \<Rightarrow> json \<Rightarrow> bool" where
  "py_eq a b = (case num_val a of Some x \<Rightarrow> num_val b = Some x | None \<Rightarrow> a = b)"

text \<open>
  \<^verbatim>\<open>d[k] = v\<close> for a hashable \<open>k\<close>: a key equal to \<open>k\<close> keeps its place and itself
  and gets the new value; otherwise the item goes to the end.
\<close>

fun dict_setitem :: "json \<Rightarrow> 'v \<Rightarrow> (json \<times> 'v) list \<Rightarrow> (json \<times> 'v) list" where
  "dict_setitem k v [] = [(k, v)]"
| "dict_setitem k v ((k', v') # d) =
     (if py_eq k' k then (k', v) # d else (k', v') # dict_setitem k v d)"

fun dict_lookup :: "(json \<times> 'v) list \<Rightarrow> json \<Rightarrow> 'v option" where
  "dict_lookup [] k = None"
| "dict_lookup ((k', v) # d) k = (if py_eq k' k then Some v else dict_lookup d k)"

text \<open>\<^verbatim>\<open>d[k]\<close>: \<^verbatim>\<open>TypeError\<close> for a key that is not hashable, \<^verbatim>\<open>KeyError\<close> for one that is not there.\<close>

definition py_getitem :: "(json \<times> 'v) list \<Rightarrow> json \<Rightarrow> error + 'v" where
  "py_getitem d k =
     (if \<not> hashable k then Inl TypeError
      else case dict_lookup d k of None \<Rightarrow> Inl KeyError | Some v \<Rightarrow> Inr v)"

text \<open>What Python keeps true of every dict: the keys are hashable and no two of them are equal.\<close>

fun py_dict :: "(json \<times> 'v) list \<Rightarrow> bool" where
  "py_dict [] = True"
| "py_dict ((k, v) # d) =
     (hashable k \<and> (\<forall>k' \<in> set (map fst d). \<not> py_eq k k') \<and> py_dict d)"

text \<open>
  What an f-string puts for \<^verbatim>\<open>{x}\<close>: a string as it is, \<^verbatim>\<open>None\<close>, a bool and an
  \<^verbatim>\<open>int\<close> as Python writes them, and \<open>str_of\<close> of the environment for a float, a list
  or a dict.
\<close>

fun show_nat :: "nat \<Rightarrow> string" where
  "show_nat n =
     (if n < 10 then [char_of (48 + n)] else show_nat (n div 10) @ [char_of (48 + n mod 10)])"

declare show_nat.simps [simp del]

definition show_int :: "int \<Rightarrow> string" where
  "show_int i = (if i < 0 then ''-'' @ show_nat (nat (- i)) else show_nat (nat i))"

fun py_format :: "env \<Rightarrow> json \<Rightarrow> string" where
  "py_format E (JStr s) = s"
| "py_format E JNull = ''None''"
| "py_format E (JBool b) = (if b then ''True'' else ''False'')"
| "py_format E (JInt i) = show_int i"
| "py_format E x = str_of E x"

definition ticker_of :: "dict \<Rightarrow> string \<Rightarrow> error + json" where
  "ticker_of d k =
     (case map_of d k of None \<Rightarrow> Inl KeyError | Some a \<Rightarrow> py_subscript a ''ticker'')"

text \<open>
  One item of the dict comprehension of \<^verbatim>\<open>init_trading_pair_symbols\<close>: the key
  \<^verbatim>\<open>symbol_data["symbol"]\<close> is evaluated first, then the f-string with the two tickers.
\<close>

fun symbol_entry :: "env \<Rightarrow> json \<Rightarrow> error + (json \<times> string)" where
  "symbol_entry E (JObj d) =
     (case map_of d ''symbol'' of
        None \<Rightarrow> Inl KeyError
      | Some k \<Rightarrow>
          (case ticker_of d ''primaryAsset'' of
             Inl e \<Rightarrow> Inl e
           | Inr b \<Rightarrow>
               (case ticker_of d ''secondaryAsset'' of
                  Inl e \<Rightarrow> Inl e
                | Inr q \<Rightarrow> Inr (k, py_format E b @ ''-'' @ py_format E q))))"
| "symbol_entry E x = Inl TypeError"

text \<open>
  The comprehension: the items are stored in order, each key is hashed when it is stored
  (\<^verbatim>\<open>TypeError\<close> for a list or a dict), and the first exception ends it.
\<close>

fun symbol_entries ::
  "env \<Rightarrow> (json \<times> string) list \<Rightarrow> json list \<Rightarrow> error + (json \<times> string) list" where
  "symbol_entries E acc [] = Inr acc"
| "symbol_entries E acc (x # xs) =
     (case symbol_entry E x of
        Inl e \<Rightarrow> Inl e
      | Inr (k, v) \<Rightarrow>
          if hashable k then symbol_entries E (dict_setitem k v acc) xs else Inl TypeError)"

definition init_trading_pair_symbols :: "env \<Rightarrow> Constants \<Rightarrow> world \<Rightarrow> world \<times> (error + unit)" where
  "init_trading_pair_symbols E C w =
     (case api_call_with_retries E C w ''GET'' (ENDPOINT_SYMBOL C) None 0 of
        (w1, Inl e) \<Rightarrow> (w1, Inl e)
      | (w1, Inr symbols) \<Rightarrow>
          (case py_iter symbols of
             Inl e \<Rightarrow> (w1, Inl e)
           | Inr items \<Rightarrow>
               (case symbol_entries E [] items of
                  Inl e \<Rightarrow> (w1, Inl e)
                | Inr m \<Rightarrow> (w1\<lparr>symbol_map := m\<rparr>, Inr ()))))"

definition trading_pair_symbol_map ::
  "env \<Rightarrow> Constants \<Rightarrow> world \<Rightarrow> world \<times> (error + (json \<times> string) list)" where
  "trading_pair_symbol_map E C w =
     (if symbol_map w = [] then
        (case init_trading_pair_symbols E C w of
           (w1, Inl e) \<Rightarrow> (w1, Inl e)
         | (w1, Inr u) \<Rightarrow> (w1, Inr (symbol_map w1)))
      else (w, Inr (symbol_map w)))"

definition exchange_symbol_associated_to_pair ::
  "env \<Rightarrow> Constants \<Rightarrow> world \<Rightarrow> string \<Rightarrow> world \<times> (error + json)" where
  "exchange_symbol_associated_to_pair E C w trading_pair =
     (case trading_pair_symbol_map E C w of
        (w1, Inl e) \<Rightarrow> (w1, Inl e)
      | (w1, Inr m) \<Rightarrow>
          (case map fst (filter (\<lambda>(symbol, pair). pair = trading_pair) m) of
             [] \<Rightarrow> (w1, Inl ValueError)
           | symbol # rest \<Rightarrow> (w1, Inr symbol)))"

definition trading_pair_associated_to_exchange_symbol ::
  "env \<Rightarrow> Constants \<Rightarrow> world \<Rightarrow> json \<Rightarrow> world \<times> (error + string)" where
  "trading_pair_associated_to_exchange_symbol E C w symbol =
     (case trading_pair_symbol_map E C w of
        (w1, Inl e) \<Rightarrow> (w1, Inl e)
      | (w1, Inr m) \<Rightarrow> (w1, py_getitem m symbol))"

section \<open>The snapshot poller\<close>

text \<open>
  The handler of \<^verbatim>\<open>get_order_book_data\<close>: of an \<^verbatim>\<open>XeggexAPIError\<close> it reads
  \<^verbatim>\<open>err = e.error_payload.get('error', e.error_payload)\<close>, then
  \<^verbatim>\<open>e.error_payload['status']\<close> and \<^verbatim>\<open>err.get('message', str(err))\<close>, which only a
  dict has, and raises \<^verbatim>\<open>IOError\<close>; every other exception passes through.
\<close>

definition order_book_error :: "error \<Rightarrow> error" where
  "order_book_error e =
     (case e of
        XeggexAPIError error_payload \<Rightarrow>
          (let err = (case map_of error_payload ''error'' of
                        None \<Rightarrow> JObj error_payload | Some v \<Rightarrow> v)
           in case map_of error_payload ''status'' of
                None \<Rightarrow> KeyError
              | Some st \<Rightarrow> (case err of JObj d \<Rightarrow> IOError | _ \<Rightarrow> AttributeError))
      | _ \<Rightarrow> e)"

definition get_order_book_data ::
  "env \<Rightarrow> Constants \<Rightarrow> world \<Rightarrow> string \<Rightarrow> world \<times> (error + json)" where
  "get_order_book_data E C w trading_pair =
     (case exchange_symbol_associated_to_pair E C w trading_pair of
        (w1, Inl e) \<Rightarrow> (w1, Inl (order_book_error e))
      | (w1, Inr ex_pair) \<Rightarrow>
          (case api_call_with_retries E C w1 ''GET'' (ENDPOINT_ORDER_BOOK C)
                  (Some [(''depth'', JInt 150), (''ticker_id'', ex_pair)]) 0 of
             (w2, Inl e) \<Rightarrow> (w2, Inl (order_book_error e))
           | (w2, Inr orderbook_response) \<Rightarrow> (w2, Inr orderbook_response)))"

text \<open>\<^verbatim>\<open>await asyncio.sleep(t)\<close>, without cancellation.\<close>

definition sleep :: "seconds \<Rightarrow> world \<Rightarrow> world" where
  "sleep t w = w\<lparr>sleeps := sleeps w @ [t]\<rparr>"

text \<open>
  The body of \<^verbatim>\<open>for trading_pair in self._trading_pairs\<close> in
  \<^verbatim>\<open>listen_for_order_book_snapshots\<close>: the message it puts on the queue, if any. The
  queue is unbounded, as the spec has it, so \<^verbatim>\<open>put_nowait\<close> does not raise; the task
  is not cancelled; every other exception is caught, and both branches sleep 5 seconds.
\<close>

definition poll_pair ::
  "env \<Rightarrow> Constants \<Rightarrow> world \<Rightarrow> string \<Rightarrow> world \<times> json XeggexOrderBookMessage option" where
  "poll_pair E C w trading_pair =
     (case get_order_book_data E C w trading_pair of
        (w1, Inl e) \<Rightarrow> (sleep (Seconds 5) w1, None)
      | (w1, Inr snapshot) \<Rightarrow>
          (case py_subscript snapshot ''timestamp'' of
             Inl e \<Rightarrow> (sleep (Seconds 5) w1, None)
           | Inr snapshot_timestamp \<Rightarrow>
               (case snapshot of
                  JObj d \<Rightarrow>
                    (sleep (Seconds 5) w1,
                     Some (snapshot_message_from_exchange d snapshot_timestamp
                             (Some [(''trading_pair'', JStr trading_pair)])))
                | _ \<Rightarrow> (sleep (Seconds 5) w1, None))))"

text \<open>One pass of the \<^verbatim>\<open>for\<close> loop over the trading pairs; \<open>output\<close> is the queue.\<close>

fun listen_for_order_book_snapshots ::
  "env \<Rightarrow> Constants \<Rightarrow> world \<Rightarrow> json XeggexOrderBookMessage list \<Rightarrow> string list \<Rightarrow>
   world \<times> json XeggexOrderBookMessage list" where
  "listen_for_order_book_snapshots E C w output [] = (w, output)"
| "listen_for_order_book_snapshots E C w output (trading_pair # trading_pairs) =
     (case poll_pair E C w trading_pair of
        (w1, None) \<Rightarrow> listen_for_order_book_snapshots E C w1 output trading_pairs
      | (w1, Some snapshot_msg) \<Rightarrow>
          listen_for_order_book_snapshots E C w1 (output @ [snapshot_msg]) trading_pairs)"

text \<open>\<^verbatim>\<open>.get(k)\<close> on the raw payload merged with the metadata, the metadata taking precedence.\<close>

definition merged_get :: "dict \<Rightarrow> dict \<Rightarrow> string \<Rightarrow> json" where
  "merged_get msg md k = (case (map_of msg ++ map_of md) k of Some v \<Rightarrow> v | None \<Rightarrow> JNull)"

text \<open>
  The outcome of the \<open>n\<close>-th request as \<^verbatim>\<open>api_call_with_retries\<close> reads it, and the
  test \<^verbatim>\<open>request_errors or parsed_response is None\<close> that makes it retry or raise.
\<close>

definition attempt ::
  "env \<Rightarrow> Constants \<Rightarrow> nat \<Rightarrow> string \<Rightarrow> string \<Rightarrow> dict option \<Rightarrow> int option \<times> json \<times> bool" where
  "attempt E C n meth endpoint ps =
     aiohttp_response_with_errors (server E n (build_request C meth endpoint ps))"

definition failed :: "int option \<times> json \<times> bool \<Rightarrow> bool" where
  "failed res = (snd (snd res) \<or> fst (snd res) = JNull)"

text \<open>The payload of the \<^verbatim>\<open>XeggexAPIError\<close> raised after an attempt.\<close>

definition error_payload :: "int option \<times> json \<times> bool \<Rightarrow> dict" where
  "error_payload res = [(''error'', fst (snd res)), (''status'', opt_int (fst res))]"

text \<open>
  The classification as the claim C2 words it: a response is failed when the connection
  failed, or the body does not parse, or the status is outside 200 and 201 and the parsed
  body has no \<^verbatim>\<open>error\<close> field. Only an object has fields.
\<close>

fun has_error_field :: "json \<Rightarrow> bool" where
  "has_error_field (JObj d) = (''error'' \<in> set (map fst d))"
| "has_error_field _ = False"

definition spec_failed :: "http_outcome \<Rightarrow> bool" where
  "spec_failed rc =
     (case rc of
        ConnectionError \<Rightarrow> True
      | Responded r \<Rightarrow>
          (case body r of
             NotJson s \<Rightarrow> True
           | Json j \<Rightarrow> status r \<notin> {200, 201} \<and> \<not> has_error_field j))"

text \<open>The body parses to \<^verbatim>\<open>null\<close>.\<close>

definition null_body :: "http_outcome \<Rightarrow> bool" where
  "null_body rc = (case rc of ConnectionError \<Rightarrow> False | Responded r \<Rightarrow> body r = Json JNull)"

text \<open>
  The status is outside 200 and 201 and the body parses to an array that has the string
  \<^verbatim>\<open>error\<close> as an element, or to a string that has it as a substring.
\<close>

definition error_in_sequence :: "http_outcome \<Rightarrow> bool" where
  "error_in_sequence rc =
     (case rc of
        ConnectionError \<Rightarrow> False
      | Responded r \<Rightarrow>
          status r \<notin> {200, 201} \<and>
          (case body r of
             Json (JArr xs) \<Rightarrow> JStr ''error'' \<in> set xs
           | Json (JStr s) \<Rightarrow> sublist ''error'' s
           | _ \<Rightarrow> False))"

text \<open>Concrete constants, servers and worlds for the examples.\<close>

definition example_constants :: Constants where
  "example_constants =
     \<lparr>REST_URL = ''https://api.xeggex.com/api/v2'', API_MAX_RETRIES = 4,
      ENDPOINT_SYMBOL = ''market/getlist'', ENDPOINT_ORDER_BOOK = ''orderbook''\<rparr>"

definition example_listing :: json where
  "example_listing =
     JArr [JObj [(''symbol'', JStr ''BTC/USDT''),
                 (''primaryAsset'', JObj [(''ticker'', JStr ''BTC'')]),
                 (''secondaryAsset'', JObj [(''ticker'', JStr ''USDT'')])]]"

definition listing_env :: env where
  "listing_env =
     \<lparr>server = (\<lambda>n req. Responded \<lparr>status = 200, reason = Some ''OK'',
                                      body = Json example_listing\<rparr>),
      randint = (\<lambda>n. 1), str_of = (\<lambda>x. ''?'')\<rparr>"

definition failing_env :: env where
  "failing_env =
     \<lparr>server = (\<lambda>n req. Responded \<lparr>status = 503, reason = Some ''Service Unavailable'',
                                      body = NotJson (Some ''<html>'')\<rparr>),
      randint = (\<lambda>n. 1), str_of = (\<lambda>x. ''?'')\<rparr>"

definition empty_world :: world where
  "empty_world = \<lparr>symbol_map = [], requests = 0, sleeps = []\<rparr>"

definition populated_world :: world where
  "populated_world =
     \<lparr>symbol_map = [(JStr ''BTCUSDT'', ''BTC-USDT''), (JStr ''XBTUSDT'', ''BTC-USDT''),
                    (JStr ''ETHUSDT'', ''ETH-USDT'')],
      requests = 0, sleeps = []\<rparr>"

definition app_error_env :: env where
  "app_error_env =
     \<lparr>server = (\<lambda>n req. Responded
                  \<lparr>status = 200, reason = Some ''OK'',
                   body = Json (JObj [(''error'', JObj [(''message'', JStr ''bad param'')])])\<rparr>),
      randint = (\<lambda>n. 1), str_of = (\<lambda>x. ''?'')\<rparr>"

definition three_pair_world :: world where
  "three_pair_world =
     \<lparr>symbol_map = [(JStr ''BTC/USDT'', ''BTC-USDT''), (JStr ''ETH/USDT'', ''ETH-USDT''),
                    (JStr ''LTC/USDT'', ''LTC-USDT'')],
      requests = 0, sleeps = []\<rparr>"

definition example_book :: dict where
  "example_book = [(''timestamp'', JInt 1700000000), (''bids'', JArr []), (''asks'', JArr [])]"

text \<open>A server that fails on the order book of \<^verbatim>\<open>ETH/USDT\<close> and answers every other request.\<close>

definition book_env :: env where
  "book_env =
     \<lparr>server = (\<lambda>n req.
         if params req = Some [(''depth'', JInt 150), (''ticker_id'', JStr ''ETH/USDT'')]
         then Responded \<lparr>status = 500, reason = Some ''Internal Server Error'',
                          body = NotJson (Some ''oops'')\<rparr>
         else Responded \<lparr>status = 200, reason = Some ''OK'', body = Json (JObj example_book)\<rparr>),
      randint = (\<lambda>n. 1), str_of = (\<lambda>x. ''?'')\<rparr>"

section \<open>Concurrent callers of the registry\<close>

text \<open>
  A caller of \<^verbatim>\<open>trading_pair_symbol_map\<close> is an asyncio coroutine: it runs until it awaits
  something that is not ready, and other tasks run in between. Its code has two places
  where it is suspended: the request of \<^verbatim>\<open>aiohttp_response_with_errors\<close> (waiting for
  the response) and \<^verbatim>\<open>asyncio.sleep\<close> before a retry; the test
  \<^verbatim>\<open>if not cls._trading_pair_symbol_map\<close> and the sending of the first request are in
  one segment, and so are the reading of a response, the dict comprehension, the assignment
  to the class attribute and the \<^verbatim>\<open>return\<close>. A task that waits remembers which request
  it sent and its \<^verbatim>\<open>try_count\<close>.
\<close>

datatype task =
    Start
  | Waiting nat int
  | Sleeping int
  | Returned "(json \<times> string) list"
  | Raised error

text \<open>One segment of one caller, from where it is to its next suspension or its end.\<close>

fun segment :: "env \<Rightarrow> Constants \<Rightarrow> world \<Rightarrow> task \<Rightarrow> world \<times> task" where
  "segment E C w Start =
     (if symbol_map w = [] then (w\<lparr>requests := Suc (requests w)\<rparr>, Waiting (requests w) 0)
      else (w, Returned (symbol_map w)))"
| "segment E C w (Waiting n try_count) =
     (let res = attempt E C n ''GET'' (ENDPOINT_SYMBOL C) None in
      if failed res then
        if try_count < API_MAX_RETRIES C then
          (case retry_sleep_time (try_count + 1) (randint E n) of
             Inl e \<Rightarrow> (w, Raised e)
           | Inr time_sleep \<Rightarrow>
               (w\<lparr>sleeps := sleeps w @ [time_sleep]\<rparr>, Sleeping (try_count + 1)))
        else (w, Raised (XeggexAPIError (error_payload res)))
      else
        (case py_iter (fst (snd res)) of
           Inl e \<Rightarrow> (w, Raised e)
         | Inr items \<Rightarrow>
             (case symbol_entries E [] items of
                Inl e \<Rightarrow> (w, Raised e)
              | Inr m \<Rightarrow> (w\<lparr>symbol_map := m\<rparr>, Returned m))))"
| "segment E C w (Sleeping try_count) =
     (w\<lparr>requests := Suc (requests w)\<rparr>, Waiting (requests w) try_count)"
| "segment E C w (Returned m) = (w, Returned m)"
| "segment E C w (Raised e) = (w, Raised e)"

text \<open>
  The event loop: the schedule names, one after the other, the task that runs its next
  segment.
\<close>

definition resume :: "env \<Rightarrow> Constants \<Rightarrow> nat \<Rightarrow> world \<times> task list \<Rightarrow> world \<times> task list" where
  "resume E C i st =
     (case st of (w, tasks) \<Rightarrow>
        if i < length tasks
        then (case segment E C w (tasks ! i) of (w1, t) \<Rightarrow> (w1, tasks[i := t]))
        else (w, tasks))"

definition run_schedule ::
  "env \<Rightarrow> Constants \<Rightarrow> nat list \<Rightarrow> world \<times> task list \<Rightarrow> world \<times> task list" where
  "run_schedule E C schedule st = fold (resume E C) schedule st"

text \<open>The map a listing gives, as \<^verbatim>\<open>init_trading_pair_symbols\<close> computes it.\<close>

definition listing_map :: "env \<Rightarrow> json \<Rightarrow> error + (json \<times> string) list" where
  "listing_map E symbols =
     (case py_iter symbols of Inl e \<Rightarrow> Inl e | Inr items \<Rightarrow> symbol_entries E [] items)"

text \<open>What a finished sequential call is as the state of a task.\<close>

definition as_task ::
  "world \<times> (error + (json \<times> string) list) \<Rightarrow> world \<times> task" where
  "as_task r = (case r of (w, Inl e) \<Rightarrow> (w, Raised e) | (w, Inr m) \<Rightarrow> (w, Returned m))"

definition segments :: "env \<Rightarrow> Constants \<Rightarrow> nat \<Rightarrow> world \<times> task \<Rightarrow> world \<times> task" where
  "segments E C k st = ((\<lambda>(w, t). segment E C w t) ^^ k) st"

section \<open>Dictionaries: lookup after update\<close>

lemma map_of_dict_update:
  "distinct (map fst e) \<Longrightarrow> map_of (dict_update d e) = map_of d ++ map_of e"
proof (induction e arbitrary: d)
  case Nil
  then show ?case by (simp add: dict_update_def)
next
  case (Cons x e)
  obtain k v where x: "x = (k, v)" by (cases x)
  from Cons.prems x have k: "k \<notin> fst ` set e" and d: "distinct (map fst e)" by auto
  have step: "dict_update d (x # e) = dict_update (AList.update k v d) e"
    by (simp add: dict_update_def x)
  from k have none: "map_of e k = None" by (simp add: map_of_eq_None_iff)
  have "map_of (dict_update d (x # e)) = map_of (AList.update k v d) ++ map_of e"
    using Cons.IH [OF d] step by simp
  also have "\<dots> = (map_of d)(k \<mapsto> v) ++ map_of e"
    by (simp only: update_conv')
  also have "\<dots> = (map_of d ++ map_of e)(k \<mapsto> v)"
    using none by (auto simp: map_add_def fun_eq_iff split: option.splits)
  also have "\<dots> = map_of d ++ map_of (x # e)"
    by (simp add: x)
  finally show ?case .
qed

lemma map_of_dict_update_other:
  "k \<notin> fst ` set e \<Longrightarrow> map_of (dict_update d e) k = map_of d k"
proof (induction e arbitrary: d)
  case Nil
  then show ?case by (simp add: dict_update_def)
next
  case (Cons x e)
  obtain k' v where x: "x = (k', v)" by (cases x)
  from Cons.prems x have ne: "k \<noteq> k'" and k: "k \<notin> fst ` set e" by auto
  have "dict_update d (x # e) = dict_update (AList.update k' v d) e"
    by (simp add: dict_update_def x)
  then have "map_of (dict_update d (x # e)) k = map_of (AList.update k' v d) k"
    using Cons.IH [OF k] by simp
  also have "\<dots> = map_of d k"
    using ne by (simp add: update_conv)
  finally show ?case .
qed

lemma py_get_merge_other:
  "k \<notin> metadata_keys md \<Longrightarrow>
   py_get (if truthy md then dict_update msg (the md) else msg) k = py_get msg k"
  by (cases md) (simp_all add: py_get_def map_of_dict_update_other)

lemma map_of_remap:
  "map_of (dict_update m
      [(''exchange_order_id'', a), (''trade_type'', b), (''price'', c), (''amount'', d)]) =
   (map_of m)(''exchange_order_id'' \<mapsto> a, ''trade_type'' \<mapsto> b, ''price'' \<mapsto> c, ''amount'' \<mapsto> d)"
  by (simp add: dict_update_def update_conv')

lemma trade_content:
  "map_of (content (trade_message_from_exchange msg ts md)) =
   (let m = (if truthy md then dict_update msg (the md) else msg) in
    (map_of m)(''exchange_order_id'' \<mapsto> py_get m ''id'', ''trade_type'' \<mapsto> py_get m ''side'',
       ''price'' \<mapsto> py_get m ''price'', ''amount'' \<mapsto> py_get m ''quantity''))"
  by (simp add: trade_message_from_exchange_def Let_def map_of_remap)

lemma trade_fields:
  assumes "metadata_keys md \<inter> {''id'', ''side'', ''price'', ''quantity''} = {}"
  shows "map_of (content (trade_message_from_exchange msg ts md)) ''exchange_order_id'' =
           Some (py_get msg ''id'')"
    and "map_of (content (trade_message_from_exchange msg ts md)) ''trade_type'' =
           Some (py_get msg ''side'')"
    and "map_of (content (trade_message_from_exchange msg ts md)) ''price'' =
           Some (py_get msg ''price'')"
    and "map_of (content (trade_message_from_exchange msg ts md)) ''amount'' =
           Some (py_get msg ''quantity'')"
proof -
  from assms have k: "''id'' \<notin> metadata_keys md" "''side'' \<notin> metadata_keys md"
    "''price'' \<notin> metadata_keys md" "''quantity'' \<notin> metadata_keys md" by auto
  note g = py_get_merge_other [OF k(1)] py_get_merge_other [OF k(2)]
    py_get_merge_other [OF k(3)] py_get_merge_other [OF k(4)]
  show "map_of (content (trade_message_from_exchange msg ts md)) ''exchange_order_id'' =
           Some (py_get msg ''id'')"
    unfolding trade_content Let_def by (simp add: g)
  show "map_of (content (trade_message_from_exchange msg ts md)) ''trade_type'' =
           Some (py_get msg ''side'')"
    unfolding trade_content Let_def by (simp add: g)
  show "map_of (content (trade_message_from_exchange msg ts md)) ''price'' =
           Some (py_get msg ''price'')"
    unfolding trade_content Let_def by (simp add: g)
  show "map_of (content (trade_message_from_exchange msg ts md)) ''amount'' =
           Some (py_get msg ''quantity'')"
    unfolding trade_content Let_def by (simp add: g)
qed

section \<open>The normalizers\<close>

text \<open>
  C6. For every raw trade payload, \<^verbatim>\<open>trade_message_from_exchange\<close> returns a message of
  type TRADE whose content holds the raw \<^verbatim>\<open>id\<close> under \<^verbatim>\<open>exchange_order_id\<close>, the raw
  \<^verbatim>\<open>side\<close> under \<^verbatim>\<open>trade_type\<close>, the raw \<^verbatim>\<open>price\<close> under \<^verbatim>\<open>price\<close> and the
  raw \<^verbatim>\<open>quantity\<close> under \<^verbatim>\<open>amount\<close>. The raw values are read with
  \<^verbatim>\<open>msg.get\<close>; the metadata is no metadata, or one that sets none of the four raw
  keys (the callers pass \<^verbatim>\<open>{"trading_pair": pair}\<close>).
\<close>

theorem C6_trade_remap:
  assumes "metadata_keys md \<inter> {''id'', ''side'', ''price'', ''quantity''} = {}"
  shows "message_type (trade_message_from_exchange msg ts md) = TRADE \<and>
         map_of (content (trade_message_from_exchange msg ts md)) ''exchange_order_id'' =
           Some (py_get msg ''id'') \<and>
         map_of (content (trade_message_from_exchange msg ts md)) ''trade_type'' =
           Some (py_get msg ''side'') \<and>
         map_of (content (trade_message_from_exchange msg ts md)) ''price'' =
           Some (py_get msg ''price'') \<and>
         map_of (content (trade_message_from_exchange msg ts md)) ''amount'' =
           Some (py_get msg ''quantity'')"
  using trade_fields [OF assms, of msg ts]
  by (simp add: trade_message_from_exchange_def Let_def)

text \<open>The example of the spec: id 42, side buy, price 100.5, quantity 2.\<close>

theorem C6_trade_remap_witness:
  "metadata_keys (Some [(''trading_pair'', JStr ''BTC-USDT'')])
     \<inter> {''id'', ''side'', ''price'', ''quantity''} = {} \<and>
   message_type (trade_message_from_exchange
     [(''id'', JInt 42), (''side'', JStr ''buy''), (''price'', JStr ''100.5''),
      (''quantity'', JStr ''2'')] (1700000000 :: int)
     (Some [(''trading_pair'', JStr ''BTC-USDT'')])) = TRADE \<and>
   map_of (content (trade_message_from_exchange
     [(''id'', JInt 42), (''side'', JStr ''buy''), (''price'', JStr ''100.5''),
      (''quantity'', JStr ''2'')] (1700000000 :: int)
     (Some [(''trading_pair'', JStr ''BTC-USDT'')]))) ''exchange_order_id'' = Some (JInt 42) \<and>
   map_of (content (trade_message_from_exchange
     [(''id'', JInt 42), (''side'', JStr ''buy''), (''price'', JStr ''100.5''),
      (''quantity'', JStr ''2'')] (1700000000 :: int)
     (Some [(''trading_pair'', JStr ''BTC-USDT'')]))) ''trade_type'' = Some (JStr ''buy'') \<and>
   map_of (content (trade_message_from_exchange
     [(''id'', JInt 42), (''side'', JStr ''buy''), (''price'', JStr ''100.5''),
      (''quantity'', JStr ''2'')] (1700000000 :: int)
     (Some [(''trading_pair'', JStr ''BTC-USDT'')]))) ''price'' = Some (JStr ''100.5'') \<and>
   map_of (content (trade_message_from_exchange
     [(''id'', JInt 42), (''side'', JStr ''buy''), (''price'', JStr ''100.5''),
      (''quantity'', JStr ''2'')] (1700000000 :: int)
     (Some [(''trading_pair'', JStr ''BTC-USDT'')]))) ''amount'' = Some (JStr ''2'')"
proof -
  have h: "metadata_keys (Some [(''trading_pair'', JStr ''BTC-USDT'')])
             \<inter> {''id'', ''side'', ''price'', ''quantity''} = {}"
    by simp
  show ?thesis
    using h C6_trade_remap [OF h, of
        "[(''id'', JInt 42), (''side'', JStr ''buy''), (''price'', JStr ''100.5''),
          (''quantity'', JStr ''2'')]" "1700000000 :: int"]
    by (simp add: py_get_def)
qed

text \<open>
  C10. \<^verbatim>\<open>trade_message_from_exchange\<close> has no failing branch: for every raw trade
  mapping it returns a message of type TRADE with the timestamp it was given, and each of
  \<^verbatim>\<open>exchange_order_id\<close>, \<^verbatim>\<open>trade_type\<close>, \<^verbatim>\<open>price\<close>, \<^verbatim>\<open>amount\<close> is a key of
  the content, holding the raw value of \<^verbatim>\<open>id\<close>, \<^verbatim>\<open>side\<close>, \<^verbatim>\<open>price\<close>,
  \<^verbatim>\<open>quantity\<close> when the raw mapping has that key and \<^verbatim>\<open>None\<close> when it has not.
  The metadata is as in C6.
\<close>

theorem C10_trade_total:
  assumes "metadata_keys md \<inter> {''id'', ''side'', ''price'', ''quantity''} = {}"
  shows "message_type (trade_message_from_exchange msg ts md) = TRADE \<and>
         timestamp (trade_message_from_exchange msg ts md) = ts \<and>
         (\<forall>dst src. (dst, src) \<in> {(''exchange_order_id'', ''id''), (''trade_type'', ''side''),
                                   (''price'', ''price''), (''amount'', ''quantity'')} \<longrightarrow>
            (\<forall>v. map_of msg src = Some v \<longrightarrow>
                 map_of (content (trade_message_from_exchange msg ts md)) dst = Some v) \<and>
            (map_of msg src = None \<longrightarrow>
                 map_of (content (trade_message_from_exchange msg ts md)) dst = Some JNull))"
proof -
  have "message_type (trade_message_from_exchange msg ts md) = TRADE"
    and "timestamp (trade_message_from_exchange msg ts md) = ts"
    by (simp_all add: trade_message_from_exchange_def Let_def)
  moreover have "(\<forall>v. map_of msg src = Some v \<longrightarrow>
                 map_of (content (trade_message_from_exchange msg ts md)) dst = Some v) \<and>
            (map_of msg src = None \<longrightarrow>
                 map_of (content (trade_message_from_exchange msg ts md)) dst = Some JNull)"
    if "(dst, src) \<in> {(''exchange_order_id'', ''id''), (''trade_type'', ''side''),
                        (''price'', ''price''), (''amount'', ''quantity'')}" for dst src
  proof -
    from that trade_fields [OF assms, of msg ts]
    have "map_of (content (trade_message_from_exchange msg ts md)) dst = Some (py_get msg src)"
      by auto
    then show ?thesis by (simp add: py_get_def)
  qed
  ultimately show ?thesis by blast
qed

text \<open>A raw trade with a side and a price only, and no metadata.\<close>

theorem C10_trade_total_witness:
  "metadata_keys None \<inter> {''id'', ''side'', ''price'', ''quantity''} = {} \<and>
   message_type (trade_message_from_exchange
     [(''side'', JStr ''sell''), (''price'', JStr ''7'')] (1700000000 :: int) None) = TRADE \<and>
   map_of (content (trade_message_from_exchange
     [(''side'', JStr ''sell''), (''price'', JStr ''7'')] (1700000000 :: int) None))
     ''exchange_order_id'' = Some JNull \<and>
   map_of (content (trade_message_from_exchange
     [(''side'', JStr ''sell''), (''price'', JStr ''7'')] (1700000000 :: int) None))
     ''trade_type'' = Some (JStr ''sell'') \<and>
   map_of (content (trade_message_from_exchange
     [(''side'', JStr ''sell''), (''price'', JStr ''7'')] (1700000000 :: int) None))
     ''price'' = Some (JStr ''7'') \<and>
   map_of (content (trade_message_from_exchange
     [(''side'', JStr ''sell''), (''price'', JStr ''7'')] (1700000000 :: int) None))
     ''amount'' = Some JNull"
proof -
  have h: "metadata_keys None \<inter> {''id'', ''side'', ''price'', ''quantity''} = {}"
    by simp
  show ?thesis
    using h C10_trade_total [OF h, of
        "[(''side'', JStr ''sell''), (''price'', JStr ''7'')]" "1700000000 :: int"]
    by simp
qed

lemma merge_content:
  "distinct (map fst md) \<Longrightarrow>
   map_of (if truthy (Some md) then dict_update msg (the (Some md)) else msg) =
   map_of msg ++ map_of md"
  by (cases md) (simp_all add: map_of_dict_update)

text \<open>
  C7, as the claim states it, fails for trade messages: the raw trade and the metadata
  both have the key \<^verbatim>\<open>amount\<close>, and the content holds neither value under it but the
  raw \<^verbatim>\<open>quantity\<close>, which the remap stores after the merge.
\<close>

theorem C7_metadata_precedence_counterexample:
  "map_of [(''amount'', JStr ''1''), (''quantity'', JStr ''2'')] ''amount'' = Some (JStr ''1'') \<and>
   map_of [(''amount'', JStr ''9'')] ''amount'' = Some (JStr ''9'') \<and>
   map_of (content (trade_message_from_exchange
      [(''amount'', JStr ''1''), (''quantity'', JStr ''2'')] (1700000000 :: int)
      (Some [(''amount'', JStr ''9'')]))) ''amount'' = Some (JStr ''2'')"
  by (simp add: trade_message_from_exchange_def dict_update_def py_get_def)

text \<open>
  C7, amended. For a snapshot and for a diff the content is the raw payload merged with the
  metadata, the metadata's value standing under every key both have. For a trade the
  content is that merge with four keys set afterwards: \<^verbatim>\<open>exchange_order_id\<close>,
  \<^verbatim>\<open>trade_type\<close>, \<^verbatim>\<open>price\<close> and \<^verbatim>\<open>amount\<close> hold what the merge has under
  \<^verbatim>\<open>id\<close>, \<^verbatim>\<open>side\<close>, \<^verbatim>\<open>price\<close> and \<^verbatim>\<open>quantity\<close>; so the metadata's value
  stands under every key of the metadata but \<^verbatim>\<open>exchange_order_id\<close>, \<^verbatim>\<open>trade_type\<close>
  and \<^verbatim>\<open>amount\<close>.
\<close>

theorem C7_metadata_merge:
  assumes "distinct (map fst md)"
  shows "map_of (content (snapshot_message_from_exchange msg ts (Some md))) =
           map_of msg ++ map_of md \<and>
         map_of (content (diff_message_from_exchange msg ts (Some md))) =
           map_of msg ++ map_of md \<and>
         map_of (content (trade_message_from_exchange msg ts (Some md))) =
           (map_of msg ++ map_of md)
             (''exchange_order_id'' \<mapsto> merged_get msg md ''id'',
              ''trade_type'' \<mapsto> merged_get msg md ''side'',
              ''price'' \<mapsto> merged_get msg md ''price'',
              ''amount'' \<mapsto> merged_get msg md ''quantity'') \<and>
         (\<forall>k v. map_of md k = Some v \<longrightarrow>
                k \<notin> {''exchange_order_id'', ''trade_type'', ''amount''} \<longrightarrow>
                map_of (content (trade_message_from_exchange msg ts (Some md))) k = Some v)"
proof -
  note m = merge_content [OF assms, of msg]
  have s: "map_of (content (snapshot_message_from_exchange msg ts (Some md))) =
             map_of msg ++ map_of md"
    using m by (simp add: snapshot_message_from_exchange_def Let_def)
  have d: "map_of (content (diff_message_from_exchange msg ts (Some md))) =
             map_of msg ++ map_of md"
    using m by (simp add: diff_message_from_exchange_def Let_def)
  have t: "map_of (content (trade_message_from_exchange msg ts (Some md))) =
           (map_of msg ++ map_of md)
             (''exchange_order_id'' \<mapsto> merged_get msg md ''id'',
              ''trade_type'' \<mapsto> merged_get msg md ''side'',
              ''price'' \<mapsto> merged_get msg md ''price'',
              ''amount'' \<mapsto> merged_get msg md ''quantity'')"
    unfolding trade_content Let_def py_get_def merged_get_def m ..
  have p: "\<forall>k v. map_of md k = Some v \<longrightarrow>
                k \<notin> {''exchange_order_id'', ''trade_type'', ''amount''} \<longrightarrow>
                map_of (content (trade_message_from_exchange msg ts (Some md))) k = Some v"
    unfolding t by (auto simp: merged_get_def)
  from s d t p show ?thesis by blast
qed

text \<open>
  A trade whose metadata sets \<^verbatim>\<open>trading_pair\<close> and \<^verbatim>\<open>price\<close>: both values stand in
  the content.
\<close>

theorem C7_metadata_merge_witness:
  "distinct (map fst [(''trading_pair'', JStr ''BTC-USDT''), (''price'', JStr ''3'')]) \<and>
   map_of (content (snapshot_message_from_exchange
     [(''price'', JStr ''1''), (''quantity'', JStr ''2'')] (1700000000 :: int)
     (Some [(''trading_pair'', JStr ''BTC-USDT''), (''price'', JStr ''3'')]))) ''price'' =
     Some (JStr ''3'') \<and>
   map_of (content (trade_message_from_exchange
     [(''price'', JStr ''1''), (''quantity'', JStr ''2'')] (1700000000 :: int)
     (Some [(''trading_pair'', JStr ''BTC-USDT''), (''price'', JStr ''3'')]))) ''price'' =
     Some (JStr ''3'') \<and>
   map_of (content (trade_message_from_exchange
     [(''price'', JStr ''1''), (''quantity'', JStr ''2'')] (1700000000 :: int)
     (Some [(''trading_pair'', JStr ''BTC-USDT''), (''price'', JStr ''3'')]))) ''trading_pair'' =
     Some (JStr ''BTC-USDT'') \<and>
   map_of (content (trade_message_from_exchange
     [(''price'', JStr ''1''), (''quantity'', JStr ''2'')] (1700000000 :: int)
     (Some [(''trading_pair'', JStr ''BTC-USDT''), (''price'', JStr ''3'')]))) ''amount'' =
     Some (JStr ''2'')"
proof -
  have h: "distinct (map fst [(''trading_pair'', JStr ''BTC-USDT''), (''price'', JStr ''3'')])"
    by simp
  show ?thesis
    using h C7_metadata_merge [OF h, of
        "[(''price'', JStr ''1''), (''quantity'', JStr ''2'')]" "1700000000 :: int"]
    by (simp add: merged_get_def)
qed

lemma api_call_success:
  "\<not> failed (attempt E C (requests w) meth endpoint ps) \<Longrightarrow>
   api_call_with_retries E C w meth endpoint ps try_count =
     (w\<lparr>requests := Suc (requests w)\<rparr>,
      Inr (fst (snd (attempt E C (requests w) meth endpoint ps))))"
  by (subst api_call_with_retries.simps) (simp add: Let_def failed_def attempt_def)

lemma api_call_exhausted:
  "failed (attempt E C (requests w) meth endpoint ps) \<Longrightarrow> \<not> try_count < API_MAX_RETRIES C \<Longrightarrow>
   api_call_with_retries E C w meth endpoint ps try_count =
     (w\<lparr>requests := Suc (requests w)\<rparr>,
      Inl (XeggexAPIError (error_payload (attempt E C (requests w) meth endpoint ps))))"
  by (subst api_call_with_retries.simps)
     (simp add: Let_def failed_def attempt_def error_payload_def)

lemma api_call_overflow:
  "failed (attempt E C (requests w) meth endpoint ps) \<Longrightarrow> try_count < API_MAX_RETRIES C \<Longrightarrow>
   retry_sleep_time (try_count + 1) (randint E (requests w)) = Inl e \<Longrightarrow>
   api_call_with_retries E C w meth endpoint ps try_count =
     (w\<lparr>requests := Suc (requests w)\<rparr>, Inl e)"
  by (subst api_call_with_retries.simps) (simp add: Let_def failed_def attempt_def)

lemma api_call_retry:
  "failed (attempt E C (requests w) meth endpoint ps) \<Longrightarrow> try_count < API_MAX_RETRIES C \<Longrightarrow>
   retry_sleep_time (try_count + 1) (randint E (requests w)) = Inr t \<Longrightarrow>
   api_call_with_retries E C w meth endpoint ps try_count =
     api_call_with_retries E C (w\<lparr>requests := Suc (requests w), sleeps := sleeps w @ [t]\<rparr>)
       meth endpoint ps (try_count + 1)"
  by (subst api_call_with_retries.simps) (simp add: Let_def failed_def attempt_def)

lemma pow143: "(1::int) + 143 ^ 143 < 2 ^ 1024 - 2 ^ 970"
  by simp

lemma no_overflow:
  assumes "0 \<le> t" "t \<le> 143"
  shows "\<not> int_too_large (1 + t ^ nat t)"
proof -
  have "t ^ nat t \<le> 143 ^ nat t" using assms by (intro power_mono) auto
  also have "\<dots> \<le> (143::int) ^ 143" using assms by (intro power_increasing) auto
  finally have "1 + t ^ nat t \<le> 1 + 143 ^ 143" by simp
  with pow143 have "1 + t ^ nat t < 2 ^ 1024 - 2 ^ 970" by linarith
  moreover have "0 \<le> 1 + t ^ nat t" using assms by simp
  ultimately show ?thesis by (simp add: int_too_large_def)
qed

lemma retry_sleep_time_returns:
  assumes "0 \<le> t" "t \<le> 143"
  shows "retry_sleep_time t r = Inr (Retry_seconds t r)"
  using assms no_overflow [OF assms] by (simp add: retry_sleep_time_def)

lemma pow144: "(2::int) ^ 1024 - 2 ^ 970 \<le> 1 + 144 ^ 144"
  by simp

lemma overflow_from_144:
  assumes "144 \<le> t"
  shows "int_too_large (1 + t ^ nat t)"
proof -
  have "(144::int) ^ 144 \<le> 144 ^ nat t" using assms by (intro power_increasing) auto
  also have "\<dots> \<le> t ^ nat t" using assms by (intro power_mono) auto
  finally have "1 + (144::int) ^ 144 \<le> 1 + t ^ nat t" by simp
  with pow144 have "2 ^ 1024 - 2 ^ 970 \<le> 1 + t ^ nat t" by linarith
  moreover have "0 \<le> 1 + t ^ nat t" using assms by simp
  ultimately show ?thesis by (simp add: int_too_large_def)
qed

text \<open>Why C1 bounds the constant by 143: the sleep before retry 144 is never reached.\<close>

lemma retry_sleep_time_raises:
  "144 \<le> t \<Longrightarrow> retry_sleep_time t r = Inl OverflowError"
  using overflow_from_144 [of t] by (simp add: retry_sleep_time_def)

lemma api_call_frame:
  "symbol_map (fst (api_call_with_retries E C w meth endpoint ps try_count)) = symbol_map w \<and>
   requests w < requests (fst (api_call_with_retries E C w meth endpoint ps try_count))"
proof (induction "nat (API_MAX_RETRIES C - try_count)" arbitrary: w try_count)
  case 0
  then have n: "\<not> try_count < API_MAX_RETRIES C" by simp
  show ?case
  proof (cases "failed (attempt E C (requests w) meth endpoint ps)")
    case True
    then show ?thesis by (simp add: api_call_exhausted [OF True n])
  next
    case False
    then show ?thesis by (simp add: api_call_success [OF False])
  qed
next
  case (Suc k)
  then have l: "try_count < API_MAX_RETRIES C" by simp
  show ?case
  proof (cases "failed (attempt E C (requests w) meth endpoint ps)")
    case False
    then show ?thesis by (simp add: api_call_success [OF False])
  next
    case True
    show ?thesis
    proof (cases "retry_sleep_time (try_count + 1) (randint E (requests w))")
      case (Inl e)
      show ?thesis by (simp add: api_call_overflow [OF True l Inl])
    next
      case (Inr t)
      from Suc(2) have k: "k = nat (API_MAX_RETRIES C - (try_count + 1))" by simp
      from Suc(1) [OF k, of "w\<lparr>requests := Suc (requests w), sleeps := sleeps w @ [t]\<rparr>"]
      show ?thesis by (simp add: api_call_retry [OF True l Inr])
    qed
  qed
qed

lemma all_failed:
  assumes "\<forall>n. failed (attempt E C n meth endpoint ps)"
    and "0 \<le> try_count" "try_count \<le> API_MAX_RETRIES C" "API_MAX_RETRIES C \<le> 143"
  shows "requests (fst (api_call_with_retries E C w meth endpoint ps try_count)) =
           requests w + nat (API_MAX_RETRIES C - try_count) + 1 \<and>
         snd (api_call_with_retries E C w meth endpoint ps try_count) =
           Inl (XeggexAPIError (error_payload
                  (attempt E C (requests w + nat (API_MAX_RETRIES C - try_count)) meth endpoint ps)))"
  using assms(2,3)
proof (induction "nat (API_MAX_RETRIES C - try_count)" arbitrary: w try_count)
  case 0
  then have n: "\<not> try_count < API_MAX_RETRIES C" by simp
  from assms(1) have f: "failed (attempt E C (requests w) meth endpoint ps)" by blast
  from 0 show ?case by (simp add: api_call_exhausted [OF f n])
next
  case (Suc k)
  then have l: "try_count < API_MAX_RETRIES C" by simp
  from assms(1) have f: "failed (attempt E C (requests w) meth endpoint ps)" by blast
  from Suc.prems l assms(4) have b: "0 \<le> try_count + 1" "try_count + 1 \<le> 143" by auto
  note r = retry_sleep_time_returns [OF b, of "randint E (requests w)"]
  from Suc(2) have k: "k = nat (API_MAX_RETRIES C - (try_count + 1))" by simp
  from l have le: "try_count + 1 \<le> API_MAX_RETRIES C" by simp
  from Suc(2) have k': "nat (API_MAX_RETRIES C - try_count) = Suc k" by simp
  show ?case
    using Suc(1) [OF k b(1) le] k
    unfolding api_call_retry [OF f l r] k'
    by simp
qed


lemma classify:
  assumes "\<not> error_in_sequence rc"
  shows "snd (snd (aiohttp_response_with_errors rc)) = (spec_failed rc \<or> null_body rc)"
proof (cases rc)
  case ConnectionError
  then show ?thesis by (simp add: aiohttp_response_with_errors_def spec_failed_def)
next
  case (Responded r)
  show ?thesis
  proof (cases "body r")
    case (NotJson s)
    with Responded show ?thesis
      by (cases s)
         (simp_all add: aiohttp_response_with_errors_def spec_failed_def null_body_def Let_def
            split: sum.splits bool.splits)
  next
    case (Json j)
    with Responded assms show ?thesis
      by (cases j)
         (auto simp: aiohttp_response_with_errors_def spec_failed_def null_body_def
            error_in_sequence_def Let_def split: bool.splits)
  qed
qed

lemma passthrough:
  assumes "server E (requests w) (build_request C meth endpoint ps) = Responded r"
    and "status r = 200" "body r = Json (JObj d)" "''error'' \<in> set (map fst d)"
  shows "api_call_with_retries E C w meth endpoint ps try_count =
           (w\<lparr>requests := Suc (requests w)\<rparr>, Inr (JObj d))"
proof -
  have a: "attempt E C (requests w) meth endpoint ps = (Some 200, JObj d, False)"
    using assms by (simp add: attempt_def aiohttp_response_with_errors_def)
  then have "\<not> failed (attempt E C (requests w) meth endpoint ps)" by (simp add: failed_def)
  from api_call_success [OF this] a show ?thesis by simp
qed

lemma init_requests:
  "requests w < requests (fst (init_trading_pair_symbols E C w))"
proof -
  obtain w1 r where a: "api_call_with_retries E C w ''GET'' (ENDPOINT_SYMBOL C) None 0 = (w1, r)"
    by (cases "api_call_with_retries E C w ''GET'' (ENDPOINT_SYMBOL C) None 0")
  with api_call_frame [of E C w "''GET''" "ENDPOINT_SYMBOL C" None 0]
  have "requests w < requests w1" by simp
  then show ?thesis
    by (simp add: init_trading_pair_symbols_def a split: sum.splits)
qed

section \<open>The REST client: retries and classification\<close>

text \<open>
  C1. When every attempt of a REST call is classified as failed, \<^verbatim>\<open>api_call_with_retries\<close>,
  called with \<^verbatim>\<open>try_count = 0\<close>, sends \<open>API_MAX_RETRIES + 1\<close> requests and then raises
  \<^verbatim>\<open>XeggexAPIError\<close>, whose payload holds the status and the parsed or raw body of the
  last attempt. The constant is a parameter: it is not negative, and at most 143, since from
  \<^verbatim>\<open>try_count = 144\<close> on \<^verbatim>\<open>retry_sleep_time\<close> raises \<^verbatim>\<open>OverflowError\<close>.
\<close>

theorem C1_retry_bound:
  assumes "0 \<le> API_MAX_RETRIES C" "API_MAX_RETRIES C \<le> 143"
    and "\<forall>n. failed (attempt E C n meth endpoint ps)"
  shows "requests (fst (api_call_with_retries E C w meth endpoint ps 0)) =
           requests w + nat (API_MAX_RETRIES C) + 1 \<and>
         snd (api_call_with_retries E C w meth endpoint ps 0) =
           Inl (XeggexAPIError (error_payload
                  (attempt E C (requests w + nat (API_MAX_RETRIES C)) meth endpoint ps)))"
  using all_failed [OF assms(3), of 0 w] assms(1,2) by simp

text \<open>A server that answers 503 with a body that is no JSON, and four retries: five requests.\<close>

theorem C1_retry_bound_witness:
  "0 \<le> API_MAX_RETRIES example_constants \<and> API_MAX_RETRIES example_constants \<le> 143 \<and>
   (\<forall>n. failed (attempt failing_env example_constants n ''GET'' ''orderbook'' None)) \<and>
   requests (fst (api_call_with_retries failing_env example_constants empty_world
                    ''GET'' ''orderbook'' None 0)) = 5 \<and>
   snd (api_call_with_retries failing_env example_constants empty_world
          ''GET'' ''orderbook'' None 0) =
     Inl (XeggexAPIError [(''error'', JStr ''<html>''), (''status'', JInt 503)])"
proof -
  have a: "0 \<le> API_MAX_RETRIES example_constants" "API_MAX_RETRIES example_constants \<le> 143"
    by (simp_all add: example_constants_def)
  have at: "attempt failing_env example_constants n ''GET'' ''orderbook'' None =
           (Some 503, JStr ''<html>'', True)" for n
    by (simp add: attempt_def failing_env_def aiohttp_response_with_errors_def Let_def
          sublist_Cons_right)
  have f: "\<forall>n. failed (attempt failing_env example_constants n ''GET'' ''orderbook'' None)"
    by (simp add: at failed_def)
  have m: "nat (API_MAX_RETRIES example_constants) = 4"
    by (simp add: example_constants_def)
  have q: "requests empty_world = 0"
    by (simp add: empty_world_def)
  show ?thesis
    using a f C1_retry_bound [OF a f, of empty_world]
    by (simp add: at error_payload_def opt_int_def m q)
qed

text \<open>
  C2, as the claim states it, fails: a response with status 200 whose body is the JSON
  \<^verbatim>\<open>null\<close> has a connection, a body that parses and a status in 200 and 201, and is
  classified as failed (\<^verbatim>\<open>parsed_response is None\<close>).
\<close>

theorem C2_classification_counterexample:
  "snd (snd (aiohttp_response_with_errors
       (Responded \<lparr>status = 200, reason = Some ''OK'', body = Json JNull\<rparr>))) = True \<and>
   spec_failed (Responded \<lparr>status = 200, reason = Some ''OK'', body = Json JNull\<rparr>) = False"
  by (simp add: aiohttp_response_with_errors_def spec_failed_def)

text \<open>
  C2, amended. Leave aside the responses with a status outside 200 and 201 whose body
  parses to an array that has the string \<^verbatim>\<open>error\<close> as an element, or to a string that
  contains \<^verbatim>\<open>error\<close>. For every other response
  \<^verbatim>\<open>aiohttp_response_with_errors\<close> sets \<^verbatim>\<open>request_errors\<close> exactly when the connection
  failed, or the body does not parse, or it parses to \<^verbatim>\<open>null\<close>, or the status is outside
  200 and 201 and the parsed body has no \<^verbatim>\<open>error\<close> key. And a response with status 200
  whose body is an object with an \<^verbatim>\<open>error\<close> key is what \<^verbatim>\<open>api_call_with_retries\<close>
  returns, after this one request, with no retry and no exception.
\<close>

theorem C2_classification:
  "(\<not> error_in_sequence rc \<longrightarrow>
      snd (snd (aiohttp_response_with_errors rc)) = (spec_failed rc \<or> null_body rc)) \<and>
   (server E (requests w) (build_request C meth endpoint ps) = Responded r \<and>
    status r = 200 \<and> body r = Json (JObj d) \<and> ''error'' \<in> set (map fst d) \<longrightarrow>
      api_call_with_retries E C w meth endpoint ps try_count =
        (w\<lparr>requests := Suc (requests w)\<rparr>, Inr (JObj d)))"
  using classify [of rc] passthrough [of E w C meth endpoint ps r d try_count] by blast

text \<open>
  The example of the spec, status 200 and the body \<^verbatim>\<open>{"error": {"message": "bad param"}}\<close>;
  and two bodies that are arrays: the instrument listing at status 200 is not failed, an
  empty array at status 500 is.
\<close>

theorem C2_classification_witness:
  "\<not> error_in_sequence (server app_error_env 0 (build_request example_constants ''GET'' ''orderbook'' None)) \<and>
   snd (snd (aiohttp_response_with_errors
     (server app_error_env 0 (build_request example_constants ''GET'' ''orderbook'' None)))) = False \<and>
   api_call_with_retries app_error_env example_constants empty_world ''GET'' ''orderbook'' None 0 =
     (\<lparr>symbol_map = [], requests = 1, sleeps = []\<rparr>,
      Inr (JObj [(''error'', JObj [(''message'', JStr ''bad param'')])])) \<and>
   \<not> error_in_sequence
       (Responded \<lparr>status = 200, reason = Some ''OK'', body = Json example_listing\<rparr>) \<and>
   snd (snd (aiohttp_response_with_errors
       (Responded \<lparr>status = 200, reason = Some ''OK'', body = Json example_listing\<rparr>))) = False \<and>
   \<not> error_in_sequence
       (Responded \<lparr>status = 500, reason = Some ''Internal Server Error'',
                    body = Json (JArr [])\<rparr>) \<and>
   snd (snd (aiohttp_response_with_errors
       (Responded \<lparr>status = 500, reason = Some ''Internal Server Error'',
                    body = Json (JArr [])\<rparr>))) = True"
proof -
  let ?r = "\<lparr>status = 200, reason = Some ''OK'',
             body = Json (JObj [(''error'', JObj [(''message'', JStr ''bad param'')])])\<rparr>"
  let ?l = "Responded \<lparr>status = 200, reason = Some ''OK'', body = Json example_listing\<rparr>"
  let ?e = "Responded \<lparr>status = 500, reason = Some ''Internal Server Error'',
                        body = Json (JArr [])\<rparr>"
  have s: "server app_error_env n req = Responded ?r" for n req
    by (simp add: app_error_env_def)
  have n: "\<not> error_in_sequence (Responded ?r)" "\<not> error_in_sequence ?l"
    "\<not> error_in_sequence ?e"
    by (simp_all add: error_in_sequence_def example_listing_def)
  have q: "requests empty_world = 0" "empty_world\<lparr>requests := Suc 0\<rparr> =
      \<lparr>symbol_map = [], requests = 1, sleeps = []\<rparr>"
    by (simp_all add: empty_world_def)
  have 1: "snd (snd (aiohttp_response_with_errors (Responded ?r))) = False \<and>
           api_call_with_retries app_error_env example_constants empty_world
             ''GET'' ''orderbook'' None 0 =
             (\<lparr>symbol_map = [], requests = 1, sleeps = []\<rparr>,
              Inr (JObj [(''error'', JObj [(''message'', JStr ''bad param'')])]))"
    using n(1) C2_classification [of "Responded ?r" app_error_env empty_world example_constants
        "''GET''" "''orderbook''" None ?r "[(''error'', JObj [(''message'', JStr ''bad param'')])]" 0]
    by (simp add: s q spec_failed_def null_body_def)
  have 2: "snd (snd (aiohttp_response_with_errors ?l)) = False"
    using n(2) C2_classification [of ?l, THEN conjunct1]
    by (simp add: spec_failed_def null_body_def example_listing_def)
  have 3: "snd (snd (aiohttp_response_with_errors ?e)) = True"
    using n(3) C2_classification [of ?e, THEN conjunct1]
    by (simp add: spec_failed_def null_body_def)
  from n 1 2 3 show ?thesis by (simp add: s)
qed

section \<open>The symbol registry\<close>

lemma dict_lookup_member:
  "py_dict d \<Longrightarrow> (k, v) \<in> set d \<Longrightarrow> dict_lookup d k = Some v"
proof (induction d)
  case Nil
  then show ?case by simp
next
  case (Cons x d)
  obtain k' v' where x: "x = (k', v')" by (cases x)
  show ?case
  proof (cases "(k, v) = (k', v')")
    case True
    then have "py_eq k' k" by (simp add: py_eq_def split: option.splits)
    with True x show ?thesis by simp
  next
    case False
    with Cons.prems x have m: "(k, v) \<in> set d" and d: "py_dict d" by auto
    from m have "k \<in> set (map fst d)" by force
    with Cons.prems(1) x have "\<not> py_eq k' k" by auto
    with Cons.IH [OF d m] x show ?thesis by simp
  qed
qed

lemma py_dict_hashable: "py_dict d \<Longrightarrow> (k, v) \<in> set d \<Longrightarrow> hashable k"
  by (induction d) auto

text \<open>On string keys the invariant of a dict is that the keys are distinct.\<close>

lemma py_dict_strings: "py_dict (map (\<lambda>(s, v). (JStr s, v)) d) = distinct (map fst d)"
proof (induction d)
  case Nil
  show ?case by simp
next
  case (Cons x d)
  obtain s v where x: "x = (s, v)" by (cases x)
  have "(\<forall>k' \<in> set (map fst (map (\<lambda>(s, v). (JStr s, v)) d)). \<not> py_eq (JStr s) k') =
        (s \<notin> set (map fst d))"
    by (force simp: py_eq_def)
  with Cons x show ?case by simp
qed

text \<open>
  C3. For every populated symbol map and every trading pair \<open>p\<close> among its values,
  \<^verbatim>\<open>exchange_symbol_associated_to_pair(p)\<close> returns a symbol that the map sends to \<open>p\<close>
  (the first one, when there are several), and
  \<^verbatim>\<open>trading_pair_associated_to_exchange_symbol\<close> of that symbol returns \<open>p\<close>; neither
  call changes the world. The map is a Python dict: its keys are hashable and no two of
  them are equal.
\<close>

theorem C3_round_trip:
  assumes "symbol_map w \<noteq> []" "py_dict (symbol_map w)"
    and "p \<in> snd ` set (symbol_map w)"
  shows "\<exists>s. exchange_symbol_associated_to_pair E C w p = (w, Inr s) \<and>
             dict_lookup (symbol_map w) s = Some p \<and>
             trading_pair_associated_to_exchange_symbol E C w s = (w, Inr p)"
proof -
  let ?f = "filter (\<lambda>(symbol, pair). pair = p) (symbol_map w)"
  from assms(3) have "?f \<noteq> []" by (auto simp: filter_empty_conv)
  then obtain x xs where f: "?f = x # xs" by (cases ?f) auto
  then have "x \<in> set ?f" by simp
  then have x: "(fst x, p) \<in> set (symbol_map w)" by auto
  from dict_lookup_member [OF assms(2) x]
  have m: "dict_lookup (symbol_map w) (fst x) = Some p" .
  from py_dict_hashable [OF assms(2) x] have h: "hashable (fst x)" .
  have 1: "exchange_symbol_associated_to_pair E C w p = (w, Inr (fst x))"
    using assms(1) f
    by (simp add: exchange_symbol_associated_to_pair_def trading_pair_symbol_map_def)
  have 2: "trading_pair_associated_to_exchange_symbol E C w (fst x) = (w, Inr p)"
    using assms(1) m h
    by (simp add: trading_pair_associated_to_exchange_symbol_def trading_pair_symbol_map_def
          py_getitem_def)
  from 1 2 m show ?thesis by blast
qed

text \<open>
  The example of the spec, with a second symbol of the same pair in the map:
  \<^verbatim>\<open>BTC-USDT\<close> resolves to \<^verbatim>\<open>BTCUSDT\<close> and back.
\<close>

theorem C3_round_trip_witness:
  "symbol_map populated_world \<noteq> [] \<and> py_dict (symbol_map populated_world) \<and>
   ''BTC-USDT'' \<in> snd ` set (symbol_map populated_world) \<and>
   exchange_symbol_associated_to_pair listing_env example_constants populated_world ''BTC-USDT'' =
     (populated_world, Inr (JStr ''BTCUSDT'')) \<and>
   trading_pair_associated_to_exchange_symbol listing_env example_constants populated_world
     (JStr ''BTCUSDT'') = (populated_world, Inr ''BTC-USDT'')"
proof -
  have h: "symbol_map populated_world \<noteq> []" "py_dict (symbol_map populated_world)"
    "''BTC-USDT'' \<in> snd ` set (symbol_map populated_world)"
    by (simp_all add: populated_world_def py_eq_def)
  have e: "exchange_symbol_associated_to_pair listing_env example_constants populated_world
             ''BTC-USDT'' = (populated_world, Inr (JStr ''BTCUSDT''))"
    by (simp add: exchange_symbol_associated_to_pair_def trading_pair_symbol_map_def
          populated_world_def)
  from C3_round_trip [OF h, of listing_env example_constants] e
  have "trading_pair_associated_to_exchange_symbol listing_env example_constants populated_world
          (JStr ''BTCUSDT'') = (populated_world, Inr ''BTC-USDT'')"
    by auto
  with h e show ?thesis by blast
qed

text \<open>
  C4, as the claim states it, fails on the empty map:
  \<^verbatim>\<open>trading_pair_associated_to_exchange_symbol\<close> reads the map through
  \<^verbatim>\<open>trading_pair_symbol_map\<close>, which initializes an empty map. Here one request is
  sent and the stored map changes.
\<close>

theorem C4_no_init_counterexample:
  "symbol_map empty_world = [] \<and> requests empty_world = 0 \<and>
   trading_pair_associated_to_exchange_symbol listing_env example_constants empty_world
     (JStr ''BTC/USDT'') =
     (\<lparr>symbol_map = [(JStr ''BTC/USDT'', ''BTC-USDT'')], requests = 1, sleeps = []\<rparr>,
      Inr ''BTC-USDT'')"
proof -
  have a: "attempt listing_env example_constants 0 ''GET'' ''market/getlist'' None =
             (Some 200, example_listing, False)"
    by (simp add: attempt_def listing_env_def aiohttp_response_with_errors_def example_listing_def)
  then have n: "\<not> failed (attempt listing_env example_constants (requests empty_world)
                   ''GET'' ''market/getlist'' None)"
    by (simp add: failed_def empty_world_def example_listing_def)
  have e: "ENDPOINT_SYMBOL example_constants = ''market/getlist''"
    by (simp add: example_constants_def)
  have q: "requests empty_world = 0" "symbol_map empty_world = []"
    by (simp_all add: empty_world_def)
  have "init_trading_pair_symbols listing_env example_constants empty_world =
          (\<lparr>symbol_map = [(JStr ''BTC/USDT'', ''BTC-USDT'')], requests = 1, sleeps = []\<rparr>, Inr ())"
    unfolding init_trading_pair_symbols_def e api_call_success [OF n] q a
    by (simp add: example_listing_def ticker_of_def empty_world_def)
  then show ?thesis
    by (simp add: trading_pair_associated_to_exchange_symbol_def trading_pair_symbol_map_def q
          py_getitem_def py_eq_def)
qed

text \<open>A string is equal to itself only: looking it up is looking up the first such key.\<close>

lemma py_eq_str: "py_eq k (JStr s) = (k = JStr s)"
  by (cases k) (simp_all add: py_eq_def)

lemma dict_lookup_str: "dict_lookup d (JStr s) = map_of d (JStr s)"
  by (induction d) (auto simp: py_eq_str)

text \<open>
  C4, amended. On a map that is not empty
  \<^verbatim>\<open>trading_pair_associated_to_exchange_symbol\<close> sends no request and leaves the world
  as it is, and raises \<^verbatim>\<open>KeyError\<close> when the symbol is not in the map
  (\<^verbatim>\<open>TypeError\<close> when it is not hashable). On the empty map it runs
  \<^verbatim>\<open>init_trading_pair_symbols\<close> first, which sends at least one request, and looks the
  symbol up in the map stored then.
\<close>

theorem C4_lazy_lookup:
  "(symbol_map w \<noteq> [] \<longrightarrow>
      trading_pair_associated_to_exchange_symbol E C w symbol =
        (w, if hashable symbol
            then (case dict_lookup (symbol_map w) symbol of
                    None \<Rightarrow> Inl KeyError | Some pair \<Rightarrow> Inr pair)
            else Inl TypeError)) \<and>
   (symbol_map w = [] \<longrightarrow>
      requests w < requests (fst (trading_pair_associated_to_exchange_symbol E C w symbol)) \<and>
      trading_pair_associated_to_exchange_symbol E C w symbol =
        (case init_trading_pair_symbols E C w of
           (w1, Inl e) \<Rightarrow> (w1, Inl e)
         | (w1, Inr u) \<Rightarrow>
             (w1, if hashable symbol
                  then (case dict_lookup (symbol_map w1) symbol of
                          None \<Rightarrow> Inl KeyError | Some pair \<Rightarrow> Inr pair)
                  else Inl TypeError)))"
proof -
  have 1: "trading_pair_associated_to_exchange_symbol E C w symbol =
        (w, if hashable symbol
            then (case dict_lookup (symbol_map w) symbol of
                    None \<Rightarrow> Inl KeyError | Some pair \<Rightarrow> Inr pair)
            else Inl TypeError)" if "symbol_map w \<noteq> []"
    using that
    by (simp add: trading_pair_associated_to_exchange_symbol_def trading_pair_symbol_map_def
          py_getitem_def)
  have 2: "trading_pair_associated_to_exchange_symbol E C w symbol =
        (case init_trading_pair_symbols E C w of
           (w1, Inl e) \<Rightarrow> (w1, Inl e)
         | (w1, Inr u) \<Rightarrow>
             (w1, if hashable symbol
                  then (case dict_lookup (symbol_map w1) symbol of
                          None \<Rightarrow> Inl KeyError | Some pair \<Rightarrow> Inr pair)
                  else Inl TypeError))" if "symbol_map w = []"
    using that
    by (simp add: trading_pair_associated_to_exchange_symbol_def trading_pair_symbol_map_def
          py_getitem_def split: prod.splits sum.splits)
  have 3: "requests w < requests (fst (trading_pair_associated_to_exchange_symbol E C w symbol))"
    if "symbol_map w = []"
    using init_requests [of w E C] unfolding 2 [OF that]
    by (auto split: prod.splits sum.splits)
  from 1 2 3 show ?thesis by blast
qed

text \<open>On a populated map: a symbol of the map, a symbol that is not in it, and no request.\<close>

theorem C4_lazy_lookup_witness:
  "symbol_map populated_world \<noteq> [] \<and>
   trading_pair_associated_to_exchange_symbol listing_env example_constants populated_world
     (JStr ''XBTUSDT'') = (populated_world, Inr ''BTC-USDT'') \<and>
   trading_pair_associated_to_exchange_symbol listing_env example_constants populated_world
     (JStr ''DOGEUSDT'') = (populated_world, Inl KeyError)"
proof -
  have h: "symbol_map populated_world \<noteq> []"
    by (simp add: populated_world_def)
  have m: "dict_lookup (symbol_map populated_world) (JStr ''XBTUSDT'') = Some ''BTC-USDT''"
    "dict_lookup (symbol_map populated_world) (JStr ''DOGEUSDT'') = None"
    by (simp_all add: populated_world_def dict_lookup_str)
  show ?thesis
    using h m
      C4_lazy_lookup [of populated_world listing_env example_constants "JStr ''XBTUSDT''"]
      C4_lazy_lookup [of populated_world listing_env example_constants "JStr ''DOGEUSDT''"]
    by simp
qed

section \<open>The snapshot poller: one pass over the trading pairs\<close>

lemma listen_append:
  "listen_for_order_book_snapshots E C w out (xs @ ys) =
     (case listen_for_order_book_snapshots E C w out xs of
        (w1, out1) \<Rightarrow> listen_for_order_book_snapshots E C w1 out1 ys)"
  by (induction xs arbitrary: w out) (simp_all split: prod.splits option.splits)

lemma listen_grows:
  "\<exists>ms. snd (listen_for_order_book_snapshots E C w out ps) = out @ ms"
proof (induction ps arbitrary: w out)
  case Nil
  then show ?case by simp
next
  case (Cons p ps)
  obtain w1 r where p: "poll_pair E C w p = (w1, r)" by (cases "poll_pair E C w p")
  show ?case
  proof (cases r)
    case None
    with p Cons [of w1 out] show ?thesis by simp
  next
    case (Some m)
    from Cons [of w1 "out @ [m]"] obtain ms where
      "snd (listen_for_order_book_snapshots E C w1 (out @ [m]) ps) = (out @ [m]) @ ms"
      by blast
    with p Some show ?thesis by simp
  qed
qed

lemma poll_pair_success:
  assumes "get_order_book_data E C w trading_pair = (w1, Inr (JObj snapshot))"
    and "map_of snapshot ''timestamp'' = Some snapshot_timestamp"
  shows "poll_pair E C w trading_pair =
           (sleep (Seconds 5) w1,
            Some (snapshot_message_from_exchange snapshot snapshot_timestamp
                    (Some [(''trading_pair'', JStr trading_pair)])))"
  using assms by (simp add: poll_pair_def)

text \<open>
  C8. In one pass of the poller over the trading pairs, whatever the pairs before and after
  it do (every exception but a cancellation is caught inside the loop body), a pair whose
  order book is fetched, as an object that has a \<^verbatim>\<open>timestamp\<close>, has its snapshot
  message put on the queue: behind whatever the pairs before it put there, and before
  whatever the pairs after it add.
\<close>

theorem C8_partial_failure_isolation:
  assumes "listen_for_order_book_snapshots E C w out before = (w1, out1)"
    and "get_order_book_data E C w1 trading_pair = (w2, Inr (JObj snapshot))"
    and "map_of snapshot ''timestamp'' = Some snapshot_timestamp"
  shows "\<exists>earlier later.
           out1 = out @ earlier \<and>
           snd (listen_for_order_book_snapshots E C w out (before @ trading_pair # after)) =
             out1 @ [snapshot_message_from_exchange snapshot snapshot_timestamp
                       (Some [(''trading_pair'', JStr trading_pair)])] @ later \<and>
           message_type (snapshot_message_from_exchange snapshot snapshot_timestamp
                       (Some [(''trading_pair'', JStr trading_pair)])) = SNAPSHOT"
proof -
  let ?m = "snapshot_message_from_exchange snapshot snapshot_timestamp
              (Some [(''trading_pair'', JStr trading_pair)])"
  from listen_grows [of E C w out before] assms(1)
  obtain earlier where e: "out1 = out @ earlier" by auto
  have "listen_for_order_book_snapshots E C w out (before @ trading_pair # after) =
          listen_for_order_book_snapshots E C (sleep (Seconds 5) w2) (out1 @ [?m]) after"
    by (simp add: listen_append assms(1) poll_pair_success [OF assms(2,3)])
  moreover from listen_grows [of E C "sleep (Seconds 5) w2" "out1 @ [?m]" after]
  obtain later where
    "snd (listen_for_order_book_snapshots E C (sleep (Seconds 5) w2) (out1 @ [?m]) after) =
       (out1 @ [?m]) @ later"
    by blast
  ultimately have
    "snd (listen_for_order_book_snapshots E C w out (before @ trading_pair # after)) =
       out1 @ [?m] @ later"
    by simp
  moreover have "message_type ?m = SNAPSHOT"
    by (simp add: snapshot_message_from_exchange_def)
  ultimately show ?thesis using e by blast
qed

text \<open>
  The example of the spec: three pairs, and the server fails on the second at every
  attempt. The first and the third pair each have their snapshot message on the queue.
\<close>

theorem C8_partial_failure_isolation_witness:
  "fst (listen_for_order_book_snapshots book_env example_constants three_pair_world []
          [''BTC-USDT'']) =
     \<lparr>symbol_map = symbol_map three_pair_world, requests = 1, sleeps = [Seconds 5]\<rparr> \<and>
   snd (listen_for_order_book_snapshots book_env example_constants three_pair_world []
          [''BTC-USDT'', ''ETH-USDT'']) =
     [snapshot_message_from_exchange example_book (JInt 1700000000)
        (Some [(''trading_pair'', JStr ''BTC-USDT'')])] \<and>
   snd (get_order_book_data book_env example_constants
          (fst (listen_for_order_book_snapshots book_env example_constants three_pair_world []
                  [''BTC-USDT'', ''ETH-USDT''])) ''LTC-USDT'') = Inr (JObj example_book) \<and>
   map_of example_book ''timestamp'' = Some (JInt 1700000000) \<and>
   snd (listen_for_order_book_snapshots book_env example_constants three_pair_world []
          [''BTC-USDT'', ''ETH-USDT'', ''LTC-USDT'']) =
     [snapshot_message_from_exchange example_book (JInt 1700000000)
        (Some [(''trading_pair'', JStr ''BTC-USDT'')]),
      snapshot_message_from_exchange example_book (JInt 1700000000)
        (Some [(''trading_pair'', JStr ''LTC-USDT'')])]"
proof -
  let ?w1 = "\<lparr>symbol_map = symbol_map three_pair_world, requests = 6,
              sleeps = [Seconds 5, Retry_seconds 1 1, Retry_seconds 2 1, Retry_seconds 3 1,
                        Retry_seconds 4 1, Seconds 5]\<rparr>"
  let ?w2 = "\<lparr>symbol_map = symbol_map three_pair_world, requests = 7,
              sleeps = [Seconds 5, Retry_seconds 1 1, Retry_seconds 2 1, Retry_seconds 3 1,
                        Retry_seconds 4 1, Seconds 5]\<rparr>"
  let ?b = "snapshot_message_from_exchange example_book (JInt 1700000000)
              (Some [(''trading_pair'', JStr ''BTC-USDT'')])"
  have 0: "fst (listen_for_order_book_snapshots book_env example_constants three_pair_world []
                  [''BTC-USDT'']) =
             \<lparr>symbol_map = symbol_map three_pair_world, requests = 1, sleeps = [Seconds 5]\<rparr>"
    by code_simp
  have 1: "listen_for_order_book_snapshots book_env example_constants three_pair_world []
             [''BTC-USDT'', ''ETH-USDT''] = (?w1, [?b])"
    by code_simp
  have 2: "get_order_book_data book_env example_constants ?w1 ''LTC-USDT'' =
             (?w2, Inr (JObj example_book))"
    by code_simp
  have 3: "map_of example_book ''timestamp'' = Some (JInt 1700000000)"
    by (simp add: example_book_def)
  have 5: "snd (listen_for_order_book_snapshots book_env example_constants three_pair_world []
               [''BTC-USDT'', ''ETH-USDT'', ''LTC-USDT'']) =
          [?b, snapshot_message_from_exchange example_book (JInt 1700000000)
                 (Some [(''trading_pair'', JStr ''LTC-USDT'')])]"
    by code_simp
  note 6 = C8_partial_failure_isolation [OF 1 2 3, of "[]"]
  show ?thesis using 0 1 2 3 5 6 by simp
qed

section \<open>Concurrent callers: how many requests\<close>

lemma segments_Suc: "segments E C (Suc k) (w, t) = segments E C k (segment E C w t)"
  by (simp add: segments_def funpow_swap1)

lemma segments_0: "segments E C 0 st = st"
  by (simp add: segments_def)

text \<open>
  The segments are the sequential code cut at its awaits: a task that waits for the response
  to request \<open>n\<close>, run alone, ends as \<^verbatim>\<open>api_call_with_retries\<close> and the rest of
  \<^verbatim>\<open>init_trading_pair_symbols\<close> do.
\<close>

lemma waiting_refines:
  "\<exists>k. segments E C k (w\<lparr>requests := Suc (requests w)\<rparr>, Waiting (requests w) try_count) =
         (case api_call_with_retries E C w ''GET'' (ENDPOINT_SYMBOL C) None try_count of
            (w1, Inl e) \<Rightarrow> (w1, Raised e)
          | (w1, Inr symbols) \<Rightarrow>
              (case listing_map E symbols of
                 Inl e \<Rightarrow> (w1, Raised e)
               | Inr m \<Rightarrow> (w1\<lparr>symbol_map := m\<rparr>, Returned m)))"
proof (induction "nat (API_MAX_RETRIES C - try_count)" arbitrary: w try_count)
  case 0
  then have n: "\<not> try_count < API_MAX_RETRIES C" by simp
  let ?a = "attempt E C (requests w) ''GET'' (ENDPOINT_SYMBOL C) None"
  show ?case
  proof (cases "failed ?a")
    case True
    have "segments E C (Suc 0) (w\<lparr>requests := Suc (requests w)\<rparr>, Waiting (requests w) try_count) =
            (w\<lparr>requests := Suc (requests w)\<rparr>, Raised (XeggexAPIError (error_payload ?a)))"
      using True n by (simp add: segments_Suc segments_0 Let_def)
    then show ?thesis
      unfolding api_call_exhausted [OF True n] by (intro exI [of _ "Suc 0"]) simp
  next
    case False
    have "segments E C (Suc 0) (w\<lparr>requests := Suc (requests w)\<rparr>, Waiting (requests w) try_count) =
            (case listing_map E (fst (snd ?a)) of
               Inl e \<Rightarrow> (w\<lparr>requests := Suc (requests w)\<rparr>, Raised e)
             | Inr m \<Rightarrow> (w\<lparr>requests := Suc (requests w), symbol_map := m\<rparr>, Returned m))"
      using False
      by (simp add: segments_Suc segments_0 Let_def listing_map_def split: sum.splits)
    then show ?thesis
      unfolding api_call_success [OF False] by (intro exI [of _ "Suc 0"]) simp
  qed
next
  case (Suc j)
  then have l: "try_count < API_MAX_RETRIES C" by simp
  let ?a = "attempt E C (requests w) ''GET'' (ENDPOINT_SYMBOL C) None"
  show ?case
  proof (cases "failed ?a")
    case False
    have "segments E C (Suc 0) (w\<lparr>requests := Suc (requests w)\<rparr>, Waiting (requests w) try_count) =
            (case listing_map E (fst (snd ?a)) of
               Inl e \<Rightarrow> (w\<lparr>requests := Suc (requests w)\<rparr>, Raised e)
             | Inr m \<Rightarrow> (w\<lparr>requests := Suc (requests w), symbol_map := m\<rparr>, Returned m))"
      using False
      by (simp add: segments_Suc segments_0 Let_def listing_map_def split: sum.splits)
    then show ?thesis
      unfolding api_call_success [OF False] by (intro exI [of _ "Suc 0"]) simp
  next
    case True
    show ?thesis
    proof (cases "retry_sleep_time (try_count + 1) (randint E (requests w))")
      case (Inl e)
      have "segments E C (Suc 0) (w\<lparr>requests := Suc (requests w)\<rparr>, Waiting (requests w) try_count) =
              (w\<lparr>requests := Suc (requests w)\<rparr>, Raised e)"
        using True l Inl by (simp add: segments_Suc segments_0 Let_def)
      then show ?thesis
        unfolding api_call_overflow [OF True l Inl] by (intro exI [of _ "Suc 0"]) simp
    next
      case (Inr t)
      let ?w = "w\<lparr>requests := Suc (requests w), sleeps := sleeps w @ [t]\<rparr>"
      from Suc(2) have j: "j = nat (API_MAX_RETRIES C - (try_count + 1))" by simp
      from Suc(1) [OF j, of ?w] obtain k where
        k: "segments E C k (?w\<lparr>requests := Suc (requests ?w)\<rparr>, Waiting (requests ?w) (try_count + 1)) =
             (case api_call_with_retries E C ?w ''GET'' (ENDPOINT_SYMBOL C) None (try_count + 1) of
                (w1, Inl e) \<Rightarrow> (w1, Raised e)
              | (w1, Inr symbols) \<Rightarrow>
                  (case listing_map E symbols of
                     Inl e \<Rightarrow> (w1, Raised e)
                   | Inr m \<Rightarrow> (w1\<lparr>symbol_map := m\<rparr>, Returned m)))"
        by blast
      have "segments E C (Suc (Suc k))
              (w\<lparr>requests := Suc (requests w)\<rparr>, Waiting (requests w) try_count) =
            segments E C k (?w\<lparr>requests := Suc (requests ?w)\<rparr>, Waiting (requests ?w) (try_count + 1))"
        using True l Inr by (simp add: segments_Suc Let_def)
      with k show ?thesis
        unfolding api_call_retry [OF True l Inr] by (intro exI [of _ "Suc (Suc k)"]) simp
    qed
  qed
qed

lemma caller_refines:
  "\<exists>k. segments E C k (w, Start) = as_task (trading_pair_symbol_map E C w)"
proof (cases "symbol_map w = []")
  case False
  then have "segments E C (Suc 0) (w, Start) = as_task (trading_pair_symbol_map E C w)"
    by (simp add: segments_Suc segments_0 trading_pair_symbol_map_def as_task_def)
  then show ?thesis by blast
next
  case True
  from waiting_refines [of E C w 0] obtain k where
    k: "segments E C k (w\<lparr>requests := Suc (requests w)\<rparr>, Waiting (requests w) 0) =
         (case api_call_with_retries E C w ''GET'' (ENDPOINT_SYMBOL C) None 0 of
            (w1, Inl e) \<Rightarrow> (w1, Raised e)
          | (w1, Inr symbols) \<Rightarrow>
              (case listing_map E symbols of
                 Inl e \<Rightarrow> (w1, Raised e)
               | Inr m \<Rightarrow> (w1\<lparr>symbol_map := m\<rparr>, Returned m)))"
    by blast
  have "segments E C (Suc k) (w, Start) = as_task (trading_pair_symbol_map E C w)"
    using True k
    by (simp add: segments_Suc trading_pair_symbol_map_def init_trading_pair_symbols_def
          as_task_def listing_map_def split: prod.splits sum.splits)
  then show ?thesis by blast
qed

lemma run_schedule_append:
  "run_schedule E C (xs @ ys) st = run_schedule E C ys (run_schedule E C xs st)"
  by (simp add: run_schedule_def)

lemma first_round:
  assumes "symbol_map w = []"
  shows "run_schedule E C [0..<k] (w, replicate k Start @ replicate j Start) =
           (w\<lparr>requests := requests w + k\<rparr>,
            map (\<lambda>i. Waiting (requests w + i) 0) [0..<k] @ replicate j Start)"
proof (induction k arbitrary: j)
  case 0
  show ?case by (simp add: run_schedule_def)
next
  case (Suc k)
  have r: "replicate (Suc k) Start @ replicate j Start =
           replicate k Start @ replicate (Suc j) Start"
    by (simp add: replicate_app_Cons_same)
  have "run_schedule E C [0..<Suc k] (w, replicate (Suc k) Start @ replicate j Start) =
        resume E C k (run_schedule E C [0..<k] (w, replicate k Start @ replicate (Suc j) Start))"
    unfolding r by (simp add: run_schedule_def)
  also have "\<dots> = resume E C k (w\<lparr>requests := requests w + k\<rparr>,
            map (\<lambda>i. Waiting (requests w + i) 0) [0..<k] @ replicate (Suc j) Start)"
    by (simp only: Suc)
  also have "\<dots> = (w\<lparr>requests := requests w + Suc k\<rparr>,
            map (\<lambda>i. Waiting (requests w + i) 0) [0..<Suc k] @ replicate j Start)"
    using assms by (simp add: resume_def nth_append list_update_append)
  finally show ?case .
qed

lemma waiting_success:
  assumes "\<not> failed (attempt E C n ''GET'' (ENDPOINT_SYMBOL C) None)"
    and "listing_map E (fst (snd (attempt E C n ''GET'' (ENDPOINT_SYMBOL C) None))) = Inr m"
  shows "segment E C w (Waiting n try_count) = (w\<lparr>symbol_map := m\<rparr>, Returned m)"
  using assms by (auto simp: Let_def listing_map_def split: sum.splits)

lemma second_round:
  assumes "\<forall>n. \<not> failed (attempt E C n ''GET'' (ENDPOINT_SYMBOL C) None) \<and>
               listing_map E (fst (snd (attempt E C n ''GET'' (ENDPOINT_SYMBOL C) None))) = Inr m"
    and "k \<le> N"
  shows "run_schedule E C [0..<k] (w, map (\<lambda>i. Waiting (r + i) 0) [0..<N]) =
           (if k = 0 then w else w\<lparr>symbol_map := m\<rparr>,
            replicate k (Returned m) @ map (\<lambda>i. Waiting (r + i) 0) [k..<N])"
  using assms(2)
proof (induction k)
  case 0
  show ?case by (simp add: run_schedule_def)
next
  case (Suc k)
  then have kN: "k < N" and le: "k \<le> N" by simp_all
  let ?ts = "replicate k (Returned m) @ map (\<lambda>i. Waiting (r + i) 0) [k..<N]"
  let ?w = "if k = 0 then w else w\<lparr>symbol_map := m\<rparr>"
  have u: "[k..<N] = k # [Suc k..<N]" using kN by (simp add: upt_conv_Cons)
  have nth: "?ts ! k = Waiting (r + k) 0" by (simp add: nth_append u)
  have len: "k < length ?ts" using kN by simp
  have upd: "?ts[k := Returned m] =
             replicate (Suc k) (Returned m) @ map (\<lambda>i. Waiting (r + i) 0) [Suc k..<N]"
    by (simp add: list_update_append u replicate_append_same)
  from assms(1) have s: "segment E C ?w (Waiting (r + k) 0) = (?w\<lparr>symbol_map := m\<rparr>, Returned m)"
    by (intro waiting_success) auto
  have "run_schedule E C [0..<Suc k] (w, map (\<lambda>i. Waiting (r + i) 0) [0..<N]) =
        resume E C k (run_schedule E C [0..<k] (w, map (\<lambda>i. Waiting (r + i) 0) [0..<N]))"
    by (simp add: run_schedule_def)
  also have "\<dots> = resume E C k (?w, ?ts)"
    using Suc.IH [OF le] by simp
  also have "\<dots> = (?w\<lparr>symbol_map := m\<rparr>, ?ts[k := Returned m])"
    unfolding resume_def using len nth s by simp
  also have "\<dots> = (w\<lparr>symbol_map := m\<rparr>,
        replicate (Suc k) (Returned m) @ map (\<lambda>i. Waiting (r + i) 0) [Suc k..<N])"
    unfolding upd by simp
  finally show ?case by simp
qed

text \<open>
  C9, as the claim states it, fails: two callers start on the empty map, one after the
  other, before the response to the first arrives, and then each reads its response. Two
  requests are sent.
\<close>

theorem C9_single_flight_counterexample:
  "symbol_map empty_world = [] \<and> requests empty_world = 0 \<and>
   run_schedule listing_env example_constants [0, 1, 0, 1] (empty_world, [Start, Start]) =
     (\<lparr>symbol_map = [(JStr ''BTC/USDT'', ''BTC-USDT'')], requests = 2, sleeps = []\<rparr>,
      [Returned [(JStr ''BTC/USDT'', ''BTC-USDT'')], Returned [(JStr ''BTC/USDT'', ''BTC-USDT'')]])"
  by code_simp

text \<open>
  C9, amended. Initialization is not single-flight. A caller that starts on a stored map
  that is not empty sends no request and returns the stored map. \<open>N\<close> callers that all
  start on the empty map before any response is read send \<open>N\<close> requests; when the server
  answers each of them with a listing that gives the map \<open>m\<close>, every caller stores \<open>m\<close>
  and returns it, so all of them observe the same map, after \<open>N\<close> requests.
\<close>

theorem C9_one_fetch_per_caller:
  "(symbol_map w \<noteq> [] \<longrightarrow> segment E C w Start = (w, Returned (symbol_map w))) \<and>
   (symbol_map w = [] \<longrightarrow>
      run_schedule E C [0..<N] (w, replicate N Start) =
        (w\<lparr>requests := requests w + N\<rparr>, map (\<lambda>i. Waiting (requests w + i) 0) [0..<N])) \<and>
   (symbol_map w = [] \<and>
    (\<forall>n. \<not> failed (attempt E C n ''GET'' (ENDPOINT_SYMBOL C) None) \<and>
         listing_map E (fst (snd (attempt E C n ''GET'' (ENDPOINT_SYMBOL C) None))) = Inr m) \<longrightarrow>
      run_schedule E C ([0..<N] @ [0..<N]) (w, replicate N Start) =
        (if N = 0 then w else w\<lparr>requests := requests w + N, symbol_map := m\<rparr>,
         replicate N (Returned m)))"
proof -
  have 1: "segment E C w Start = (w, Returned (symbol_map w))" if "symbol_map w \<noteq> []"
    using that by simp
  have 2: "run_schedule E C [0..<N] (w, replicate N Start) =
        (w\<lparr>requests := requests w + N\<rparr>, map (\<lambda>i. Waiting (requests w + i) 0) [0..<N])"
    if "symbol_map w = []"
    using first_round [OF that, of E C N 0] by simp
  have 3: "run_schedule E C ([0..<N] @ [0..<N]) (w, replicate N Start) =
        (if N = 0 then w else w\<lparr>requests := requests w + N, symbol_map := m\<rparr>,
         replicate N (Returned m))"
    if e: "symbol_map w = []"
      and a: "\<forall>n. \<not> failed (attempt E C n ''GET'' (ENDPOINT_SYMBOL C) None) \<and>
         listing_map E (fst (snd (attempt E C n ''GET'' (ENDPOINT_SYMBOL C) None))) = Inr m"
    unfolding run_schedule_append 2 [OF e]
    using second_round [OF a order_refl, where w = "w\<lparr>requests := requests w + N\<rparr>"
            and r = "requests w"]
    by simp
  from 1 2 3 show ?thesis by blast
qed

text \<open>Three callers and the server of the example listing: three requests, one map.\<close>

theorem C9_one_fetch_per_caller_witness:
  "symbol_map empty_world = [] \<and>
   (\<forall>n. \<not> failed (attempt listing_env example_constants n ''GET''
                     (ENDPOINT_SYMBOL example_constants) None) \<and>
        listing_map listing_env (fst (snd (attempt listing_env example_constants n ''GET''
                     (ENDPOINT_SYMBOL example_constants) None))) =
          Inr [(JStr ''BTC/USDT'', ''BTC-USDT'')]) \<and>
   run_schedule listing_env example_constants [0, 1, 2, 0, 1, 2]
       (empty_world, [Start, Start, Start]) =
     (\<lparr>symbol_map = [(JStr ''BTC/USDT'', ''BTC-USDT'')], requests = 3, sleeps = []\<rparr>,
      [Returned [(JStr ''BTC/USDT'', ''BTC-USDT'')], Returned [(JStr ''BTC/USDT'', ''BTC-USDT'')],
       Returned [(JStr ''BTC/USDT'', ''BTC-USDT'')]])"
proof -
  have e: "symbol_map empty_world = []"
    by (simp add: empty_world_def)
  have at: "attempt listing_env example_constants n ''GET''
              (ENDPOINT_SYMBOL example_constants) None = (Some 200, example_listing, False)" for n
    by (simp add: attempt_def listing_env_def aiohttp_response_with_errors_def example_listing_def)
  have lm: "listing_map listing_env example_listing = Inr [(JStr ''BTC/USDT'', ''BTC-USDT'')]"
    by (simp add: listing_map_def example_listing_def ticker_of_def)
  have a: "\<forall>n. \<not> failed (attempt listing_env example_constants n ''GET''
                     (ENDPOINT_SYMBOL example_constants) None) \<and>
        listing_map listing_env (fst (snd (attempt listing_env example_constants n ''GET''
                     (ENDPOINT_SYMBOL example_constants) None))) =
          Inr [(JStr ''BTC/USDT'', ''BTC-USDT'')]"
    by (simp add: at failed_def lm) (simp add: example_listing_def)
  have s: "[0, 1, 2, 0, 1, 2] = [0..<3] @ [0..<3]" "[Start, Start, Start] = replicate 3 Start"
    by (simp_all add: upt_rec numeral_3_eq_3)
  have "run_schedule listing_env example_constants ([0..<3] @ [0..<3])
          (empty_world, replicate 3 Start) =
        (empty_world\<lparr>requests := requests empty_world + 3,
                       symbol_map := [(JStr ''BTC/USDT'', ''BTC-USDT'')]\<rparr>,
         replicate 3 (Returned [(JStr ''BTC/USDT'', ''BTC-USDT'')]))"
    using e a C9_one_fetch_per_caller [of empty_world listing_env example_constants 3
                "[(JStr ''BTC/USDT'', ''BTC-USDT'')]"]
    by simp
  then show ?thesis
    using e a unfolding s by (simp add: empty_world_def numeral_3_eq_3)
qed

end
